theory Spec2Isabelle
  imports Main
begin

chapter \<open>Branch governance scripts and logging wrappers\<close>

text \<open>
  The development embeds three bash scripts (\<^verbatim>\<open>branch-audit.sh\<close>,
  \<^verbatim>\<open>branch-cleanup.sh\<close>, \<^verbatim>\<open>prepare-agent-branch.sh\<close>) and the JavaScript
  logging wrappers. Git, the terminal, the database client and the log sink are not
  part of the code: what they answer is an argument of the model (a record of
  functions), and what the scripts ask them to change is returned as a list of
  operations. Characters are bytes and are compared by their code (the C locale).

  All three scripts start with \<^verbatim>\<open>set -euo pipefail\<close>. Three consequences are part
  of the model wherever they decide the control flow:
  \<^item> \<^verbatim>\<open>set -e\<close>: a command that returns a non-zero status ends the script with that
    status, unless it is the condition of an \<^verbatim>\<open>if\<close>, a non-final member of a
    \<^verbatim>\<open>&&\<close>/\<^verbatim>\<open>||\<close> list or negated by \<^verbatim>\<open>!\<close>. This includes function calls
    written as plain commands and the arithmetic command \<^verbatim>\<open>((X++))\<close>, whose status
    is 1 when the value of the expression, the old value of \<^verbatim>\<open>X\<close>, is 0.
  \<^item> \<^verbatim>\<open>set -u\<close>: the expansion of a variable that has no value ends the script with
    status 1. This includes the length \<^verbatim>\<open>${#xs[@]}\<close> of an array that was declared
    with \<^verbatim>\<open>declare -a xs\<close> and never assigned.
  \<^item> \<^verbatim>\<open>error\<close> prints a message and calls \<^verbatim>\<open>exit\<close>.
\<close>

section \<open>Patterns\<close>

text \<open>
  The patterns of the scripts are POSIX extended regular expressions used with
  \<^verbatim>\<open>[[ s =~ re ]]\<close>. Every one of them is anchored at both ends and is a sequence of
  pieces: a literal character or a bracket expression, taken once, one or more times
  (\<^verbatim>\<open>+\<close>) or between \<^verbatim>\<open>m\<close> and \<^verbatim>\<open>n\<close> times (\<^verbatim>\<open>{m,n}\<close>).
\<close>

datatype bitem = Range char char | Single char

datatype atom = Lit char | Bracket "bitem list"

datatype piece = Once atom | Plus atom | Bound atom nat nat

type_synonym regex = "piece list"

fun bitem_ok :: "bitem \<Rightarrow> char \<Rightarrow> bool" where
  "bitem_ok (Range lo hi) c =
     ((of_char lo :: nat) \<le> of_char c \<and> (of_char c :: nat) \<le> of_char hi)"
| "bitem_ok (Single d) c = (c = d)"

fun atom_ok :: "atom \<Rightarrow> char \<Rightarrow> bool" where
  "atom_ok (Lit d) c = (c = d)"
| "atom_ok (Bracket bs) c = list_ex (\<lambda>b. bitem_ok b c) bs"

definition run_ok :: "atom \<Rightarrow> nat \<Rightarrow> string \<Rightarrow> bool" where
  "run_ok a k s = (k \<le> length s \<and> list_all (atom_ok a) (take k s))"

text \<open>\<open>regex_match r s\<close>: the whole of \<open>s\<close> matches \<^verbatim>\<open>^r$\<close>.\<close>

fun regex_match :: "regex \<Rightarrow> string \<Rightarrow> bool" where
  "regex_match [] s = (s = [])"
| "regex_match (Once a # ps) s =
     (case s of [] \<Rightarrow> False | c # cs \<Rightarrow> atom_ok a c \<and> regex_match ps cs)"
| "regex_match (Plus a # ps) s =
     list_ex (\<lambda>k. run_ok a k s \<and> regex_match ps (drop k s)) [1..<Suc (length s)]"
| "regex_match (Bound a lo hi # ps) s =
     list_ex (\<lambda>k. run_ok a k s \<and> regex_match ps (drop k s)) [lo..<Suc hi]"

definition lits :: "string \<Rightarrow> regex" where
  "lits s = map (\<lambda>c. Once (Lit c)) s"

text \<open>\<^verbatim>\<open>[a-z0-9-]\<close>, \<^verbatim>\<open>[A-Za-z0-9]\<close> and \<^verbatim>\<open>[0-9]\<close>.\<close>

definition lower_digit_hyphen :: atom where
  "lower_digit_hyphen =
     Bracket [Range CHR ''a'' CHR ''z'', Range CHR ''0'' CHR ''9'', Single CHR ''-'']"

definition upper_lower_digit :: atom where
  "upper_lower_digit =
     Bracket [Range CHR ''A'' CHR ''Z'', Range CHR ''a'' CHR ''z'', Range CHR ''0'' CHR ''9'']"

definition digit :: atom where
  "digit = Bracket [Range CHR ''0'' CHR ''9'']"

text \<open>A test \<^verbatim>\<open>[[ s =~ ^p ]]\<close> or \<^verbatim>\<open>grep -E '^p'\<close> with a literal \<open>p\<close>.\<close>

definition starts_with :: "string \<Rightarrow> string \<Rightarrow> bool" where
  "starts_with p s = (take (length p) s = p)"

section \<open>branch-audit.sh: the naming classifier\<close>

text \<open>
  \<^verbatim>\<open>
  VALID_PATTERNS=(
      "^main$"
      "^develop$"
      "^feature/[a-z0-9-]+$"
      "^fix/[a-z0-9-]+$"
      "^hotfix/[a-z0-9-]+$"
      "^claude/[a-z0-9-]+-[A-Za-z0-9]{24,32}$"
      "^agent/[a-z0-9-]+/[a-z0-9-]+-[A-Za-z0-9]{24,32}$"
      "^release/v[0-9]+\.[0-9]+\.[0-9]+$"
  )
  \<close>
\<close>

definition VALID_PATTERNS :: "regex list" where
  "VALID_PATTERNS =
    [ lits ''main'',
      lits ''develop'',
      lits ''feature/'' @ [Plus lower_digit_hyphen],
      lits ''fix/'' @ [Plus lower_digit_hyphen],
      lits ''hotfix/'' @ [Plus lower_digit_hyphen],
      lits ''claude/'' @ [Plus lower_digit_hyphen, Once (Lit CHR ''-''),
                          Bound upper_lower_digit 24 32],
      lits ''agent/'' @ [Plus lower_digit_hyphen, Once (Lit CHR ''/''),
                         Plus lower_digit_hyphen, Once (Lit CHR ''-''),
                         Bound upper_lower_digit 24 32],
      lits ''release/v'' @ [Plus digit, Once (Lit CHR ''.''), Plus digit,
                            Once (Lit CHR ''.''), Plus digit] ]"

text \<open>
  \<^verbatim>\<open>
  check_naming_convention() {
      local branch="$1"
      for pattern in "${VALID_PATTERNS[@]}"; do
          if [[ "$branch" =~ $pattern ]]; then
              return 0
          fi
      done
      return 1
  }
  \<close>
  The result is the return status: 0 is compliant, 1 is not.
\<close>

fun first_match :: "regex list \<Rightarrow> string \<Rightarrow> int" where
  "first_match [] branch = 1"
| "first_match (pattern # rest) branch =
     (if regex_match pattern branch then 0 else first_match rest branch)"

definition check_naming_convention :: "string \<Rightarrow> int" where
  "check_naming_convention branch = first_match VALID_PATTERNS branch"

section \<open>prepare-agent-branch.sh\<close>

text \<open>
  A function of the script that can call \<^verbatim>\<open>error\<close> returns \<open>Inl code\<close> when the
  script exits there with that status, and \<open>Inr\<close> its result otherwise.
  \<^verbatim>\<open>
  SESSION_ID_PATTERN='^[A-Za-z0-9]{24,32}$'
  TASK_NAME_PATTERN='^[a-z0-9-]{3,50}$'
  \<close>
\<close>

definition SESSION_ID_PATTERN :: regex where
  "SESSION_ID_PATTERN = [Bound upper_lower_digit 24 32]"

definition TASK_NAME_PATTERN :: regex where
  "TASK_NAME_PATTERN = [Bound lower_digit_hyphen 3 50]"

text \<open>
  \<^verbatim>\<open>
  validate_session_id() {
      local session_id="$1"
      if [[ ! "$session_id" =~ $SESSION_ID_PATTERN ]]; then
          error "Invalid session ID format. Must be 24-32 alphanumeric characters." 1
      fi
      info "... Session ID validated: $session_id"
  }
  \<close>
\<close>

definition validate_session_id :: "string \<Rightarrow> int + unit" where
  "validate_session_id session_id =
     (if \<not> regex_match SESSION_ID_PATTERN session_id then Inl 1 else Inr ())"

text \<open>
  The steps of \<^verbatim>\<open>sanitize_task_name\<close>. \<^verbatim>\<open>${task,,}\<close> lowers the letters
  \<^verbatim>\<open>A-Z\<close>; \<^verbatim>\<open>${task// /-}\<close> and \<^verbatim>\<open>${task//_/-}\<close> replace every space and every
  underscore.
\<close>

definition to_lower :: "char \<Rightarrow> char" where
  "to_lower c =
     (if (of_char CHR ''A'' :: nat) \<le> of_char c \<and> (of_char c :: nat) \<le> of_char CHR ''Z''
      then char_of (of_char c + (32 :: nat)) else c)"

definition replace_char :: "char \<Rightarrow> char \<Rightarrow> string \<Rightarrow> string" where
  "replace_char x y s = map (\<lambda>c. if c = x then y else c) s"

text \<open>
  The other steps have the form \<^verbatim>\<open>task="$(echo "$task" | sed ...)"\<close>. The builtin
  \<^verbatim>\<open>echo\<close> takes an argument made of \<^verbatim>\<open>-\<close> and one or more of the letters
  \<^verbatim>\<open>n\<close>, \<^verbatim>\<open>e\<close>, \<^verbatim>\<open>E\<close> as an option and prints no text; \<^verbatim>\<open>sed\<close> edits each
  line on its own; the command substitution drops the newlines at the end.
\<close>

definition newline :: char where
  "newline = CHR 0x0A"

definition echo :: "string \<Rightarrow> string" where
  "echo s =
     (case s of
        [] \<Rightarrow> []
      | c # r \<Rightarrow> if c = CHR ''-'' \<and> r \<noteq> [] \<and> list_all (\<lambda>x. x \<in> set ''neE'') r
                then [] else s)"

fun split_lines :: "string \<Rightarrow> string list" where
  "split_lines [] = [[]]"
| "split_lines (c # cs) =
     (if c = newline then [] # split_lines cs
      else (case split_lines cs of [] \<Rightarrow> [[c]] | l # ls \<Rightarrow> (c # l) # ls))"

fun join_lines :: "string list \<Rightarrow> string" where
  "join_lines [] = []"
| "join_lines [l] = l"
| "join_lines (l # ls) = l @ newline # join_lines ls"

definition drop_trailing :: "char \<Rightarrow> string \<Rightarrow> string" where
  "drop_trailing x s = rev (dropWhile (\<lambda>c. c = x) (rev s))"

text \<open>\<open>piped_sed f s\<close> is \<^verbatim>\<open>$(echo "$s" | sed f)\<close> for a line edit \<open>f\<close>.\<close>

definition piped_sed :: "(string \<Rightarrow> string) \<Rightarrow> string \<Rightarrow> string" where
  "piped_sed f s = drop_trailing newline (join_lines (map f (split_lines (echo s))))"

text \<open>\<^verbatim>\<open>s/[^a-z0-9-]//g\<close>\<close>

definition strip_special :: "string \<Rightarrow> string" where
  "strip_special l = filter (atom_ok lower_digit_hyphen) l"

text \<open>\<^verbatim>\<open>s/--*/-/g\<close>: every run of hyphens becomes one hyphen.\<close>

fun squeeze_hyphens :: "string \<Rightarrow> string" where
  "squeeze_hyphens (c # d # cs) =
     (if c = CHR ''-'' \<and> d = CHR ''-'' then squeeze_hyphens (d # cs)
      else c # squeeze_hyphens (d # cs))"
| "squeeze_hyphens cs = cs"

text \<open>\<^verbatim>\<open>sed 's/^-*//' | sed 's/-*$//'\<close>\<close>

definition trim_hyphens :: "string \<Rightarrow> string" where
  "trim_hyphens l = drop_trailing CHR ''-'' (dropWhile (\<lambda>c. c = CHR ''-'') l)"

text \<open>
  \<^verbatim>\<open>
  sanitize_task_name() {
      local task="$1"
      task="${task,,}"
      task="${task// /-}"
      task="${task//_/-}"
      task="$(echo "$task" | sed 's/[^a-z0-9-]//g')"
      task="$(echo "$task" | sed 's/--*/-/g')"
      task="$(echo "$task" | sed 's/^-*//' | sed 's/-*$//')"
      task="${task:0:50}"
      if [[ ! "$task" =~ $TASK_NAME_PATTERN ]]; then
          error "Task name '$task' is invalid after sanitization. Must be 3-50 chars, lowercase, hyphens only." 1
      fi
      echo "$task"
  }
  \<close>
  The caller reads the result with \<^verbatim>\<open>sanitized_task=$(sanitize_task_name ...)\<close>, so
  the last \<^verbatim>\<open>echo\<close> is read back the same way.
\<close>

definition sanitize_task_name :: "string \<Rightarrow> int + string" where
  "sanitize_task_name task0 =
     (let task = map to_lower task0;
          task = replace_char CHR '' '' CHR ''-'' task;
          task = replace_char CHR ''_'' CHR ''-'' task;
          task = piped_sed strip_special task;
          task = piped_sed squeeze_hyphens task;
          task = piped_sed trim_hyphens task;
          task = take 50 task
      in if \<not> regex_match TASK_NAME_PATTERN task then Inl 1
         else Inr (drop_trailing newline (echo task)))"

text \<open>
  \<^verbatim>\<open>
  construct_branch_name() {
      local task="$1"; local session="$2"; local agent="$3"
      if [[ "$agent" == "claude" ]]; then
          echo "claude/${task}-${session}"
      else
          echo "agent/${agent}/${task}-${session}"
      fi
  }
  \<close>
\<close>

definition construct_branch_name :: "string \<Rightarrow> string \<Rightarrow> string \<Rightarrow> string" where
  "construct_branch_name task session agent =
     (if agent = ''claude'' then ''claude/'' @ task @ ''-'' @ session
      else ''agent/'' @ agent @ ''/'' @ task @ ''-'' @ session)"

text \<open>
  What git answers to the provisioner: \<open>in_work_tree\<close> is
  \<^verbatim>\<open>git rev-parse --git-dir\<close>, \<open>ref_exists\<close> is \<^verbatim>\<open>git rev-parse --verify\<close>,
  \<open>on_remote b\<close> is \<^verbatim>\<open>git ls-remote --heads origin b | grep -q b\<close>, \<open>local_sha\<close>
  and \<open>remote_sha\<close> are the strings that the substitutions
  \<^verbatim>\<open>$(git rev-parse b 2>/dev/null || echo "")\<close> and
  \<^verbatim>\<open>$(git rev-parse origin/b 2>/dev/null || echo "")\<close> leave in the two variables: the
  commit when git resolves the name, and otherwise whatever \<^verbatim>\<open>git rev-parse\<close> wrote
  to its standard output before it failed (which need not be empty),
  \<open>current_branch\<close> is \<^verbatim>\<open>git rev-parse --abbrev-ref HEAD\<close>
  (\<open>None\<close> when it fails, as it does before the first commit of a branch), and the
  others say whether \<^verbatim>\<open>git fetch origin b\<close>, \<^verbatim>\<open>git pull origin b\<close>,
  \<^verbatim>\<open>git checkout b\<close> and \<^verbatim>\<open>git checkout -b b\<close> succeed.
\<close>

record prov_git =
  in_work_tree :: bool
  ref_exists :: "string \<Rightarrow> bool"
  on_remote :: "string \<Rightarrow> bool"
  fetch_ok :: "string \<Rightarrow> bool"
  local_sha :: "string \<Rightarrow> string"
  remote_sha :: "string \<Rightarrow> string"
  current_branch :: "string option"
  pull_ok :: "string \<Rightarrow> bool"
  checkout_ok :: "string \<Rightarrow> bool"
  create_ok :: "string \<Rightarrow> bool"

text \<open>
  The git commands of the script that write to the repository, in the order in which
  they are run (whether they then succeed or not); \<^verbatim>\<open>git push --dry-run\<close> and the
  queries above write nothing and are left out.
\<close>

datatype git_op =
    Fetch string
  | StashPush
  | Checkout string
  | Pull string
  | CheckoutNew string
  | SetUpstream string
  | SetDescription string string

definition validate_base_branch :: "prov_git \<Rightarrow> string \<Rightarrow> int + unit" where
  "validate_base_branch g base = (if \<not> ref_exists g base then Inl 1 else Inr ())"

definition check_branch_exists :: "prov_git \<Rightarrow> string \<Rightarrow> int + unit" where
  "check_branch_exists g branch =
     (if ref_exists g branch then Inl 2
      else if on_remote g branch then Inl 2
      else Inr ())"

text \<open>
  \<^verbatim>\<open>
  update_base_branch() {
      local base="$1"
      if ! git fetch origin "$base" 2>/dev/null; then
          error "Failed to fetch base branch from remote" 3
      fi
      local_sha=$(git rev-parse "$base" 2>/dev/null || echo "")
      remote_sha=$(git rev-parse "origin/$base" 2>/dev/null || echo "")
      if [[ -n "$local_sha" ]] && [[ -n "$remote_sha" ]] && [[ "$local_sha" != "$remote_sha" ]]; then
          current_branch=$(git rev-parse --abbrev-ref HEAD)
          if [[ "$current_branch" == "$base" ]]; then
              git stash push -m "Auto-stash before branch preparation" 2>/dev/null || true
          fi
          git checkout "$base" 2>/dev/null || true
          git pull origin "$base" || error "Failed to update base branch" 3
      fi
  }
  \<close>
  The functions that run git commands return the commands run, also when they exit.
  The assignment of \<^verbatim>\<open>current_branch\<close> is a plain command: when
  \<^verbatim>\<open>git rev-parse\<close> fails there, \<^verbatim>\<open>set -e\<close> ends the script with its status 128.
\<close>

definition update_base_branch :: "prov_git \<Rightarrow> string \<Rightarrow> (int + unit) \<times> git_op list" where
  "update_base_branch g base =
     (if \<not> fetch_ok g base then (Inl 3, [Fetch base])
      else if local_sha g base \<noteq> [] \<and> remote_sha g base \<noteq> []
              \<and> local_sha g base \<noteq> remote_sha g base
      then (case current_branch g of
              None \<Rightarrow> (Inl 128, [Fetch base])
            | Some current \<Rightarrow>
                (let ops = [Fetch base]
                        @ (if current = base then [StashPush] else [])
                        @ [Checkout base, Pull base]
                 in if pull_ok g base then (Inr (), ops) else (Inl 3, ops)))
      else (Inr (), [Fetch base]))"

text \<open>
  \<^verbatim>\<open>
  create_agent_branch() {
      local branch="$1"; local base="$2"
      if ! git checkout "$base" 2>/dev/null; then
          error "Failed to checkout base branch: $base" 3
      fi
      if ! git checkout -b "$branch" 2>/dev/null; then
          error "Failed to create branch: $branch" 3
      fi
  }
  \<close>
\<close>

definition create_agent_branch ::
  "prov_git \<Rightarrow> string \<Rightarrow> string \<Rightarrow> (int + unit) \<times> git_op list" where
  "create_agent_branch g branch base =
     (if \<not> checkout_ok g base then (Inl 3, [Checkout base])
      else if \<not> create_ok g branch then (Inl 3, [Checkout base, CheckoutNew branch])
      else (Inr (), [Checkout base, CheckoutNew branch]))"

text \<open>
  \<^verbatim>\<open>set_upstream_tracking\<close> runs \<^verbatim>\<open>git branch --set-upstream-to\<close> inside an
  \<^verbatim>\<open>if\<close> and \<^verbatim>\<open>set_branch_metadata\<close> runs \<^verbatim>\<open>git config ... || true\<close>: neither
  can end the script.
\<close>

definition set_upstream_tracking :: "string \<Rightarrow> git_op list" where
  "set_upstream_tracking branch = [SetUpstream branch]"

definition set_branch_metadata :: "string \<Rightarrow> string \<Rightarrow> string \<Rightarrow> git_op list" where
  "set_branch_metadata branch task session =
     [SetDescription branch (''AI Agent Task: '' @ task @ '' (Session: '' @ session @ '')'')]"

text \<open>\<^verbatim>\<open>"${3:-develop}"\<close>: the argument, or the default when it is missing or empty.\<close>

definition arg_or :: "string list \<Rightarrow> nat \<Rightarrow> string \<Rightarrow> string" where
  "arg_or args i dflt = (if i < length args \<and> args ! i \<noteq> [] then args ! i else dflt)"

text \<open>
  \<^verbatim>\<open>
  main() {
      if [[ $# -lt 2 ]]; then
          echo "ERROR: Missing required arguments"; echo ""; show_help
      fi
      TASK_DESCRIPTION="$1"; SESSION_ID="$2"
      BASE_BRANCH="${3:-develop}"; AGENT_TYPE="${4:-claude}"
      if ! git rev-parse --git-dir >/dev/null 2>&1; then
          error "Not a Git repository" 1
      fi
      validate_session_id "$SESSION_ID"
      local sanitized_task
      sanitized_task=$(sanitize_task_name "$TASK_DESCRIPTION")
      BRANCH_NAME=$(construct_branch_name "$sanitized_task" "$SESSION_ID" "$AGENT_TYPE")
      validate_base_branch "$BASE_BRANCH"
      check_branch_exists "$BRANCH_NAME"
      update_base_branch "$BASE_BRANCH"
      create_agent_branch "$BRANCH_NAME" "$BASE_BRANCH"
      set_upstream_tracking "$BRANCH_NAME"
      set_branch_metadata "$BRANCH_NAME" "$sanitized_task" "$SESSION_ID"
      verify_push_access "$BRANCH_NAME"
      print_success "$BRANCH_NAME"
      exit 0
  }
  \<close>
  \<^verbatim>\<open>show_help\<close> ends with \<^verbatim>\<open>exit 0\<close>. The result is the exit status and the
  writing git commands that were run.
\<close>

definition provision_main :: "prov_git \<Rightarrow> string list \<Rightarrow> int \<times> git_op list" where
  "provision_main g args =
     (if length args < 2 then (0, [])
      else
        let TASK_DESCRIPTION = args ! 0;
            SESSION_ID = args ! 1;
            BASE_BRANCH = arg_or args 2 ''develop'';
            AGENT_TYPE = arg_or args 3 ''claude''
        in
        if \<not> in_work_tree g then (1, [])
        else case validate_session_id SESSION_ID of
          Inl code \<Rightarrow> (code, [])
        | Inr _ \<Rightarrow>
        (case sanitize_task_name TASK_DESCRIPTION of
          Inl code \<Rightarrow> (code, [])
        | Inr sanitized_task \<Rightarrow>
        let BRANCH_NAME = construct_branch_name sanitized_task SESSION_ID AGENT_TYPE in
        (case validate_base_branch g BASE_BRANCH of
          Inl code \<Rightarrow> (code, [])
        | Inr _ \<Rightarrow>
        (case check_branch_exists g BRANCH_NAME of
          Inl code \<Rightarrow> (code, [])
        | Inr _ \<Rightarrow>
        (case update_base_branch g BASE_BRANCH of
          (Inl code, ops1) \<Rightarrow> (code, ops1)
        | (Inr _, ops1) \<Rightarrow>
        (case create_agent_branch g BRANCH_NAME BASE_BRANCH of
          (Inl code, ops2) \<Rightarrow> (code, ops1 @ ops2)
        | (Inr _, ops2) \<Rightarrow>
            (0, ops1 @ ops2 @ set_upstream_tracking BRANCH_NAME
                 @ set_branch_metadata BRANCH_NAME sanitized_task SESSION_ID)))))))"

text \<open>
  The script itself:
  \<^verbatim>\<open>
  if [[ "${1:-}" == "--help" ]] || [[ "${1:-}" == "-h" ]]; then
      show_help
  fi
  main "$@"
  \<close>
\<close>

definition prepare_agent_branch :: "prov_git \<Rightarrow> string list \<Rightarrow> int \<times> git_op list" where
  "prepare_agent_branch g args =
     (if arg_or args 0 [] = ''--help'' \<or> arg_or args 0 [] = ''-h'' then (0, [])
      else provision_main g args)"

text \<open>
  The words of the specification for a session identifier: 24 to 32 alphanumeric
  characters.
\<close>

definition alphanumeric :: "char \<Rightarrow> bool" where
  "alphanumeric c =
     (c \<in> set ''ABCDEFGHIJKLMNOPQRSTUVWXYZabcdefghijklmnopqrstuvwxyz0123456789'')"

section \<open>branch-audit.sh: the audit\<close>

text \<open>
  The options after \<^verbatim>\<open>parse_args\<close>, and what git answers: the branch listings
  (\<^verbatim>\<open>git branch | sed 's/^[* ]*//' | sort\<close> and, with \<^verbatim>\<open>--check-remote\<close>,
  \<^verbatim>\<open> git branch -r | sed 's/origin\///' | grep -v 'HEAD' | sort -u\<close>), the results
  of \<^verbatim>\<open>get_branch_age\<close> and \<^verbatim>\<open>is_merged\<close>, and the result of
  \<^verbatim>\<open>get_branch_author\<close>, which is \<^verbatim>\<open>git log --format=%an "$branch" | tail -1\<close>:
  \<open>Inl status\<close> when \<^verbatim>\<open>git log\<close> fails, which under \<^verbatim>\<open>pipefail\<close> and
  \<^verbatim>\<open>set -e\<close> ends the script in the assignment \<^verbatim>\<open>author=$(...)\<close>.
\<close>

record audit_config =
  audit_STALE_DAYS :: int
  OUTPUT_FORMAT :: string
  CHECK_REMOTE :: bool

record audit_git =
  has_git_dir :: bool
  local_branches :: "string list"
  remote_branches :: "string list"
  audit_branch_age :: "string \<Rightarrow> int"
  audit_is_merged :: "string \<Rightarrow> bool"
  get_branch_author :: "string \<Rightarrow> int + string"

record audit_state =
  naming_violations :: "string list"
  stale_merged :: "(string \<times> int) list"
  stale_unmerged :: "(string \<times> int) list"
  orphaned_agent :: "(string \<times> int) list"
  branch_data :: "string \<rightharpoonup> int \<times> bool \<times> string"
  EXIT_CODE :: int

definition audit_start :: audit_state where
  "audit_start =
     \<lparr> naming_violations = [], stale_merged = [], stale_unmerged = [],
       orphaned_agent = [], branch_data = Map.empty, EXIT_CODE = 0 \<rparr>"

text \<open>
  The body of the loop of \<^verbatim>\<open>collect_branch_data\<close>:
  \<^verbatim>\<open>
  for branch in "${all_branches[@]}"; do
      local age
      age=$(get_branch_age "$branch")
      local merged="no"
      if is_merged "$branch"; then
          merged="yes"
      fi
      local author
      author=$(get_branch_author "$branch")
      if ! check_naming_convention "$branch"; then
          naming_violations+=("$branch")
          EXIT_CODE=1
      fi
      if [[ $age -gt $STALE_DAYS ]]; then
          if [[ "$merged" == "yes" ]]; then
              stale_merged+=("$branch:$age")
          else
              stale_unmerged+=("$branch:$age")
          fi
          if [[ $EXIT_CODE -eq 0 ]]; then
              EXIT_CODE=2
          fi
      fi
      if [[ "$branch" =~ ^claude/ ]] || [[ "$branch" =~ ^agent/ ]]; then
          if [[ $age -gt 60 ]] && [[ "$merged" == "no" ]]; then
              orphaned_agent+=("$branch:$age")
          fi
      fi
      branch_data["$branch"]="age=$age merged=$merged author=$author"
  done
  \<close>
\<close>

definition note_naming :: "string \<Rightarrow> audit_state \<Rightarrow> audit_state" where
  "note_naming branch st =
     (if check_naming_convention branch \<noteq> 0
      then st\<lparr> naming_violations := naming_violations st @ [branch], EXIT_CODE := 1 \<rparr>
      else st)"

definition note_stale :: "audit_config \<Rightarrow> string \<Rightarrow> int \<Rightarrow> bool \<Rightarrow> audit_state \<Rightarrow> audit_state" where
  "note_stale cfg branch age merged st =
     (if age > audit_STALE_DAYS cfg
      then (let st1 = (if merged then st\<lparr> stale_merged := stale_merged st @ [(branch, age)] \<rparr>
                       else st\<lparr> stale_unmerged := stale_unmerged st @ [(branch, age)] \<rparr>)
            in if EXIT_CODE st1 = 0 then st1\<lparr> EXIT_CODE := 2 \<rparr> else st1)
      else st)"

definition note_orphaned :: "string \<Rightarrow> int \<Rightarrow> bool \<Rightarrow> audit_state \<Rightarrow> audit_state" where
  "note_orphaned branch age merged st =
     (if starts_with ''claude/'' branch \<or> starts_with ''agent/'' branch
      then (if age > 60 \<and> \<not> merged
            then st\<lparr> orphaned_agent := orphaned_agent st @ [(branch, age)] \<rparr>
            else st)
      else st)"

fun collect_loop :: "audit_git \<Rightarrow> audit_config \<Rightarrow> string list \<Rightarrow> audit_state \<Rightarrow> int + audit_state" where
  "collect_loop g cfg [] st = Inr st"
| "collect_loop g cfg (branch # rest) st =
     (let age = audit_branch_age g branch;
          merged = audit_is_merged g branch
      in case get_branch_author g branch of
           Inl status \<Rightarrow> Inl status
         | Inr author \<Rightarrow>
             (let st1 = note_naming branch st;
                  st2 = note_stale cfg branch age merged st1;
                  st3 = note_orphaned branch age merged st2;
                  st4 = st3\<lparr> branch_data := (branch_data st3)(branch \<mapsto> (age, merged, author)) \<rparr>
              in collect_loop g cfg rest st4))"

definition all_branches :: "audit_git \<Rightarrow> audit_config \<Rightarrow> string list" where
  "all_branches g cfg = (if CHECK_REMOTE cfg then remote_branches g else local_branches g)"

definition collect_branch_data :: "audit_git \<Rightarrow> audit_config \<Rightarrow> int + audit_state" where
  "collect_branch_data g cfg = collect_loop g cfg (all_branches g cfg) audit_start"

text \<open>
  \<^verbatim>\<open>generate_report\<close> prints the report in the chosen format and calls
  \<^verbatim>\<open>error\<close> (status 3) for an unknown format. The text is not modelled, only
  whether the function ends the script (\<open>Some status\<close>). Each of the three report
  functions starts with the counts
  \<^verbatim>\<open>
  echo "Naming violations: ${#naming_violations[@]}"
  echo "Stale merged branches: ${#stale_merged[@]}"
  echo "Stale unmerged branches: ${#stale_unmerged[@]}"
  echo "Orphaned agent branches: ${#orphaned_agent[@]}"
  \<close>
  (the same four expansions in the JSON and Markdown reports) of arrays that
  \<^verbatim>\<open>collect_branch_data\<close> declares with \<^verbatim>\<open>declare -g -a\<close>, without a value, and
  assigns only by appending in the loop. The script runs under \<^verbatim>\<open>set -u\<close>: the
  length of an array that was declared and never assigned is an unbound variable
  (bash 5.2: \<^verbatim>\<open>naming_violations: unbound variable\<close>), which ends the script with
  status 1. So the report ends the script as soon as one of the four lists is empty.
  (\<^verbatim>\<open>all_branches\<close> is assigned by \<^verbatim>\<open>mapfile\<close>, also when the listing is empty.)
\<close>

definition generate_report :: "audit_config \<Rightarrow> audit_state \<Rightarrow> int option" where
  "generate_report cfg st =
     (if OUTPUT_FORMAT cfg \<in> {''text'', ''json'', ''markdown'', ''md''}
      then (if naming_violations st = [] \<or> stale_merged st = []
               \<or> stale_unmerged st = [] \<or> orphaned_agent st = []
            then Some 1 else None)
      else Some 3)"

text \<open>
  \<^verbatim>\<open>
  main() {
      parse_args "$@"
      validate_repo
      collect_branch_data
      generate_report
      exit $EXIT_CODE
  }
  \<close>
  \<open>Exited c\<close>: the script reached \<^verbatim>\<open>exit $EXIT_CODE\<close> with \<open>c\<close>; \<open>Aborted c\<close>:
  it ended before, with status \<open>c\<close> (\<^verbatim>\<open>validate_repo\<close> calls \<^verbatim>\<open>error\<close> when
  there is no \<^verbatim>\<open>.git\<close> directory). Either way \<open>c\<close> is the exit status that the
  caller of the script sees.
\<close>

datatype outcome = Exited int | Aborted int

fun exit_status :: "outcome \<Rightarrow> int" where
  "exit_status (Exited c) = c"
| "exit_status (Aborted c) = c"

definition branch_audit :: "audit_git \<Rightarrow> audit_config \<Rightarrow> outcome" where
  "branch_audit g cfg =
     (if \<not> has_git_dir g then Aborted 3
      else case collect_branch_data g cfg of
             Inl status \<Rightarrow> Aborted status
           | Inr st \<Rightarrow>
               (case generate_report cfg st of
                  Some status \<Rightarrow> Aborted status
                | None \<Rightarrow> Exited (EXIT_CODE st)))"

text \<open>
  What \<^verbatim>\<open>collect_branch_data\<close> leaves for the report and for \<^verbatim>\<open>exit $EXIT_CODE\<close>:
  the value of \<^verbatim>\<open>EXIT_CODE\<close>, the naming violations and the stale branches.
\<close>

definition findings ::
  "audit_git \<Rightarrow> audit_config \<Rightarrow> (int \<times> string list \<times> (string \<times> int) list) option" where
  "findings g cfg =
     (case collect_branch_data g cfg of
        Inl status \<Rightarrow> None
      | Inr st \<Rightarrow> Some (EXIT_CODE st, naming_violations st, stale_merged st @ stale_unmerged st))"

section \<open>branch-cleanup.sh\<close>

text \<open>
  The options after \<^verbatim>\<open>parse_args\<close>. \<open>BRANCH_PATTERN\<close> is given by the set of
  names that \<^verbatim>\<open>grep -E "$BRANCH_PATTERN"\<close> lets through.
\<close>

record cleanup_config =
  STALE_DAYS :: int
  DRY_RUN :: bool
  AUTO_MODE :: bool
  KEEP_MERGED_DAYS :: int
  ARCHIVE_UNMERGED :: bool
  BRANCH_PATTERN :: "string \<Rightarrow> bool"
  CLEANUP_REMOTE :: bool

text \<open>
  What git answers during one run: the results of \<^verbatim>\<open>get_branch_age\<close> and
  \<^verbatim>\<open>is_merged\<close>, whether \<^verbatim>\<open>git rev-parse\<close> resolves a listed name (it does
  not resolve the line that \<^verbatim>\<open>git branch\<close> prints for a detached \<^verbatim>\<open>HEAD\<close>),
  whether \<^verbatim>\<open>git tag\<close> can create a tag that does not exist yet, whether
  \<^verbatim>\<open>git branch -d\<close> (\<open>False\<close>) or \<^verbatim>\<open>git branch -D\<close> (\<open>True\<close>) succeeds on a
  branch, and whether a \<^verbatim>\<open>git push origin\<close> of a tag or of a deletion succeeds.
\<close>

record cleanup_git =
  get_branch_age :: "string \<Rightarrow> int"
  is_merged :: "string \<Rightarrow> bool"
  rev_parse_ok :: "string \<Rightarrow> bool"
  tag_ok :: "string \<Rightarrow> bool"
  delete_ok :: "string \<Rightarrow> bool \<Rightarrow> bool"
  push_ok :: "string \<Rightarrow> bool"

text \<open>
  What the script does to a branch, in order: the tag it would create or creates or
  fails to create, the push of the tag, the deletion it would do or does or fails to
  do (with the \<open>force\<close> argument of \<^verbatim>\<open>delete_branch\<close>), the deletion on the
  remote, and the deletion that the user declined.
\<close>

datatype action =
    WouldArchive string string
  | Archived string string
  | ArchiveFailed string string
  | PushTag string string bool
  | WouldDelete string bool
  | Deleted string bool
  | DeleteFailed string bool
  | PushDelete string bool
  | Skipped string

fun target :: "action \<Rightarrow> string" where
  "target (WouldArchive b t) = b"
| "target (Archived b t) = b"
| "target (ArchiveFailed b t) = b"
| "target (PushTag b t ok) = b"
| "target (WouldDelete b f) = b"
| "target (Deleted b f) = b"
| "target (DeleteFailed b f) = b"
| "target (PushDelete b ok) = b"
| "target (Skipped b) = b"

fun is_would_archive :: "action \<Rightarrow> bool" where
  "is_would_archive (WouldArchive b t) = True"
| "is_would_archive a = False"

fun is_delete :: "action \<Rightarrow> bool" where
  "is_delete (WouldDelete b f) = True"
| "is_delete (Deleted b f) = True"
| "is_delete (DeleteFailed b f) = True"
| "is_delete (PushDelete b ok) = True"
| "is_delete a = False"

fun forced :: "action \<Rightarrow> bool" where
  "forced (WouldDelete b f) = f"
| "forced (Deleted b f) = f"
| "forced (DeleteFailed b f) = f"
| "forced a = False"

text \<open>
  The state of a run: the branches and tags of the repository, what is left of the
  standard input, the four counters and the actions so far.
\<close>

record cleanup_state =
  branches :: "string list"
  tags :: "string list"
  stdin :: string
  DELETED_COUNT :: int
  ARCHIVED_COUNT :: int
  SKIPPED_COUNT :: int
  FAILED_COUNT :: int
  actions :: "action list"

definition cleanup_start :: "string list \<Rightarrow> string list \<Rightarrow> string \<Rightarrow> cleanup_state" where
  "cleanup_start bs ts input =
     \<lparr> branches = bs, tags = ts, stdin = input, DELETED_COUNT = 0, ARCHIVED_COUNT = 0,
       SKIPPED_COUNT = 0, FAILED_COUNT = 0, actions = [] \<rparr>"

definition act :: "action \<Rightarrow> cleanup_state \<Rightarrow> cleanup_state" where
  "act a st = st\<lparr> actions := actions st @ [a] \<rparr>"

text \<open>
  A command either returns a status or ends the script. \<open>plain\<close> is a command
  written on a line of its own under \<^verbatim>\<open>set -e\<close>: a non-zero status ends the
  script with that status. Every call of \<^verbatim>\<open>delete_branch\<close> and \<^verbatim>\<open>archive_branch\<close>
  and every \<^verbatim>\<open>((X++))\<close> of the script is such a command (none is the condition of
  an \<^verbatim>\<open>if\<close> or part of a \<^verbatim>\<open>&&\<close>/\<^verbatim>\<open>||\<close> list).
\<close>

datatype res = Return int cleanup_state | Exit int cleanup_state

definition plain :: "res \<Rightarrow> res" where
  "plain r = (case r of
                Return status st \<Rightarrow> if status \<noteq> 0 then Exit status st else Return status st
              | Exit status st \<Rightarrow> Exit status st)"

text \<open>
  \<^verbatim>\<open>((X++))\<close> adds one to \<^verbatim>\<open>X\<close>; its status is 1 when the old value is 0 and 0
  otherwise.
\<close>

definition incr_DELETED :: "cleanup_state \<Rightarrow> res" where
  "incr_DELETED st =
     Return (if DELETED_COUNT st = 0 then 1 else 0) (st\<lparr> DELETED_COUNT := DELETED_COUNT st + 1 \<rparr>)"

definition incr_ARCHIVED :: "cleanup_state \<Rightarrow> res" where
  "incr_ARCHIVED st =
     Return (if ARCHIVED_COUNT st = 0 then 1 else 0) (st\<lparr> ARCHIVED_COUNT := ARCHIVED_COUNT st + 1 \<rparr>)"

definition incr_SKIPPED :: "cleanup_state \<Rightarrow> res" where
  "incr_SKIPPED st =
     Return (if SKIPPED_COUNT st = 0 then 1 else 0) (st\<lparr> SKIPPED_COUNT := SKIPPED_COUNT st + 1 \<rparr>)"

definition incr_FAILED :: "cleanup_state \<Rightarrow> res" where
  "incr_FAILED st =
     Return (if FAILED_COUNT st = 0 then 1 else 0) (st\<lparr> FAILED_COUNT := FAILED_COUNT st + 1 \<rparr>)"

text \<open>
  \<^verbatim>\<open>
  PROTECTED_BRANCHES=("main" "develop" "master")

  is_protected() {
      local branch="$1"
      for protected in "${PROTECTED_BRANCHES[@]}"; do
          if [[ "$branch" == "$protected" ]]; then
              return 0
          fi
      done
      return 1
  }
  \<close>
\<close>

definition PROTECTED_BRANCHES :: "string list" where
  "PROTECTED_BRANCHES = [''main'', ''develop'', ''master'']"

definition is_protected :: "string \<Rightarrow> bool" where
  "is_protected branch = list_ex (\<lambda>protected. branch = protected) PROTECTED_BRANCHES"

text \<open>
  \<^verbatim>\<open>
  archive_branch() {
      local branch="$1"
      local tag_name="archive/${branch//\//-}"
      local commit_sha
      commit_sha=$(git rev-parse "$branch")
      if [[ "$DRY_RUN" == "true" ]]; then
          info "[DRY-RUN] Would create tag: $tag_name"
          return 0
      fi
      if git tag "$tag_name" "$branch" 2>/dev/null; then
          log "Created archive tag: $tag_name -> $commit_sha"
          ((ARCHIVED_COUNT++))
          if [[ "$CLEANUP_REMOTE" == "true" ]]; then
              git push origin "$tag_name" 2>/dev/null || warn "Failed to push tag: $tag_name"
          fi
          return 0
      else
          warn "Failed to create archive tag: $tag_name"
          return 1
      fi
  }
  \<close>
  The assignment of \<^verbatim>\<open>commit_sha\<close> is a plain command: when \<^verbatim>\<open>git rev-parse\<close>
  fails, \<^verbatim>\<open>set -e\<close> ends the script with its status 128. \<^verbatim>\<open>git tag\<close> fails when
  the tag exists, and may fail for another reason (\<open>tag_ok\<close>).
\<close>

definition archive_tag :: "string \<Rightarrow> string" where
  "archive_tag branch = ''archive/'' @ replace_char CHR ''/'' CHR ''-'' branch"

definition archive_branch :: "cleanup_git \<Rightarrow> cleanup_config \<Rightarrow> string \<Rightarrow> cleanup_state \<Rightarrow> res" where
  "archive_branch g cfg branch st =
     (let tag_name = archive_tag branch in
      if \<not> rev_parse_ok g branch then Exit 128 st
      else if DRY_RUN cfg then Return 0 (act (WouldArchive branch tag_name) st)
      else if tag_name \<notin> set (tags st) \<and> tag_ok g tag_name then
        (case plain (incr_ARCHIVED (act (Archived branch tag_name)
                                        (st\<lparr> tags := tags st @ [tag_name] \<rparr>))) of
           Exit status st1 \<Rightarrow> Exit status st1
         | Return _ st1 \<Rightarrow>
             Return 0 (if CLEANUP_REMOTE cfg
                       then act (PushTag branch tag_name (push_ok g tag_name)) st1
                       else st1))
      else Return 1 (act (ArchiveFailed branch tag_name) st))"

text \<open>
  \<^verbatim>\<open>
  confirm_deletion() {
      local branch="$1"; local reason="$2"
      if [[ "$AUTO_MODE" == "true" ]]; then
          return 0
      fi
      echo ""; echo "Branch: $branch"; echo "Reason: $reason"
      read -p "Delete this branch? [y/N] " -n 1 -r
      echo ""
      if [[ $REPLY =~ ^[Yy]$ ]]; then
          return 0
      else
          return 1
      fi
  }
  \<close>
  \<^verbatim>\<open>read -n 1\<close> takes one character of the input; at the end of the input
  \<^verbatim>\<open>REPLY\<close> is empty. The function is only called as the condition of an
  \<^verbatim>\<open>if\<close>.
\<close>

definition confirm_deletion :: "cleanup_config \<Rightarrow> cleanup_state \<Rightarrow> int \<times> cleanup_state" where
  "confirm_deletion cfg st =
     (if AUTO_MODE cfg then (0, st)
      else case stdin st of
             [] \<Rightarrow> (1, st)
           | c # rest \<Rightarrow> (if c = CHR ''y'' \<or> c = CHR ''Y'' then 0 else 1, st\<lparr> stdin := rest \<rparr>))"

text \<open>
  \<^verbatim>\<open>
  delete_branch() {
      local branch="$1"; local reason="$2"; local force="${3:-false}"
      log "Attempting to delete: $branch (reason: $reason)"
      if [[ "$DRY_RUN" == "true" ]]; then
          info "[DRY-RUN] Would delete: $branch ($reason)"
          ((DELETED_COUNT++))
          return 0
      fi
      if [[ "$force" == "true" ]]; then
          if git branch -D "$branch" 2>/dev/null; then
              info "... Deleted: $branch ($reason)"
              ((DELETED_COUNT++))
          else
              warn "Failed to delete: $branch"
              ((FAILED_COUNT++))
              return 1
          fi
      else
          if git branch -d "$branch" 2>/dev/null; then
              info "... Deleted: $branch ($reason)"
              ((DELETED_COUNT++))
          else
              warn "Failed to delete: $branch (may have unmerged changes)"
              ((FAILED_COUNT++))
              return 1
          fi
      fi
      if [[ "$CLEANUP_REMOTE" == "true" ]]; then
          if git push origin --delete "$branch" 2>/dev/null; then
              log "Deleted remote branch: origin/$branch"
          else
              warn "Failed to delete remote branch: origin/$branch"
          fi
      fi
      return 0
  }
  \<close>
\<close>

definition delete_branch :: "cleanup_git \<Rightarrow> cleanup_config \<Rightarrow> string \<Rightarrow> bool \<Rightarrow> cleanup_state \<Rightarrow> res" where
  "delete_branch g cfg branch force st =
     (if DRY_RUN cfg then
        (case plain (incr_DELETED (act (WouldDelete branch force) st)) of
           Exit status st1 \<Rightarrow> Exit status st1
         | Return _ st1 \<Rightarrow> Return 0 st1)
      else if branch \<in> set (branches st) \<and> delete_ok g branch force then
        (case plain (incr_DELETED (act (Deleted branch force)
                                       (st\<lparr> branches := removeAll branch (branches st) \<rparr>))) of
           Exit status st1 \<Rightarrow> Exit status st1
         | Return _ st1 \<Rightarrow>
             Return 0 (if CLEANUP_REMOTE cfg
                       then act (PushDelete branch (push_ok g branch)) st1
                       else st1))
      else
        (case plain (incr_FAILED (act (DeleteFailed branch force) st)) of
           Exit status st1 \<Rightarrow> Exit status st1
         | Return _ st1 \<Rightarrow> Return 1 st1))"

text \<open>
  \<^verbatim>\<open>for branch in "${branches[@]}"; do body; done\<close>: the body runs on each
  branch in turn, from the state the one before left, until one ends the script. A
  \<^verbatim>\<open>continue\<close> is a body that returns at once.
\<close>

fun for_each :: "(string \<Rightarrow> cleanup_state \<Rightarrow> res) \<Rightarrow> string list \<Rightarrow> cleanup_state \<Rightarrow> res" where
  "for_each body [] st = Return 0 st"
| "for_each body (branch # rest) st =
     (case body branch st of
        Exit status st1 \<Rightarrow> Exit status st1
      | Return _ st1 \<Rightarrow> for_each body rest st1)"

text \<open>
  \<^verbatim>\<open>cleanup_merged_branches\<close> loops over
  \<^verbatim>\<open>git branch | sed 's/^[* ]*//' | grep -E "$BRANCH_PATTERN"\<close>:
  \<^verbatim>\<open>
  for branch in "${branches[@]}"; do
      if is_protected "$branch"; then
          continue
      fi
      if is_merged "$branch"; then
          local age
          age=$(get_branch_age "$branch")
          if [[ $age -gt $KEEP_MERGED_DAYS ]]; then
              found=true
              delete_branch "$branch" "merged and older than $KEEP_MERGED_DAYS days" "false"
          fi
      fi
  done
  \<close>
\<close>

definition merged_body :: "cleanup_git \<Rightarrow> cleanup_config \<Rightarrow> string \<Rightarrow> cleanup_state \<Rightarrow> res" where
  "merged_body g cfg branch st =
     (if is_protected branch then Return 0 st
      else if is_merged g branch then
        (if get_branch_age g branch > KEEP_MERGED_DAYS cfg
         then plain (delete_branch g cfg branch False st)
         else Return 0 st)
      else Return 0 st)"

definition cleanup_merged_branches :: "cleanup_git \<Rightarrow> cleanup_config \<Rightarrow> cleanup_state \<Rightarrow> res" where
  "cleanup_merged_branches g cfg st =
     for_each (merged_body g cfg) (filter (BRANCH_PATTERN cfg) (branches st)) st"

text \<open>
  \<^verbatim>\<open>cleanup_stale_unmerged\<close> loops over the same listing:
  \<^verbatim>\<open>
  for branch in "${branches[@]}"; do
      if is_protected "$branch"; then
          continue
      fi
      if is_merged "$branch"; then
          continue
      fi
      local age
      age=$(get_branch_age "$branch")
      if [[ $age -gt $STALE_DAYS ]]; then
          found=true
          if [[ "$ARCHIVE_UNMERGED" == "true" ]]; then
              archive_branch "$branch"
          fi
          if confirm_deletion "$branch" "unmerged and stale ($age days)"; then
              delete_branch "$branch" "unmerged but stale ($age days)" "true"
          else
              info "Skipped: $branch"
              ((SKIPPED_COUNT++))
          fi
      fi
  done
  \<close>
\<close>

definition archive_if_requested :: "cleanup_git \<Rightarrow> cleanup_config \<Rightarrow> string \<Rightarrow> cleanup_state \<Rightarrow> res" where
  "archive_if_requested g cfg branch st =
     (if ARCHIVE_UNMERGED cfg then plain (archive_branch g cfg branch st) else Return 0 st)"

definition confirm_and_delete :: "cleanup_git \<Rightarrow> cleanup_config \<Rightarrow> string \<Rightarrow> cleanup_state \<Rightarrow> res" where
  "confirm_and_delete g cfg branch st =
     (case confirm_deletion cfg st of
        (status, st1) \<Rightarrow>
          if status = 0 then plain (delete_branch g cfg branch True st1)
          else plain (incr_SKIPPED (act (Skipped branch) st1)))"

definition archive_confirm_delete :: "cleanup_git \<Rightarrow> cleanup_config \<Rightarrow> string \<Rightarrow> cleanup_state \<Rightarrow> res" where
  "archive_confirm_delete g cfg branch st =
     (case archive_if_requested g cfg branch st of
        Exit status st1 \<Rightarrow> Exit status st1
      | Return _ st1 \<Rightarrow> confirm_and_delete g cfg branch st1)"

definition stale_body :: "cleanup_git \<Rightarrow> cleanup_config \<Rightarrow> string \<Rightarrow> cleanup_state \<Rightarrow> res" where
  "stale_body g cfg branch st =
     (if is_protected branch then Return 0 st
      else if is_merged g branch then Return 0 st
      else if get_branch_age g branch > STALE_DAYS cfg
      then archive_confirm_delete g cfg branch st
      else Return 0 st)"

definition cleanup_stale_unmerged :: "cleanup_git \<Rightarrow> cleanup_config \<Rightarrow> cleanup_state \<Rightarrow> res" where
  "cleanup_stale_unmerged g cfg st =
     for_each (stale_body g cfg) (filter (BRANCH_PATTERN cfg) (branches st)) st"

text \<open>
  \<^verbatim>\<open>cleanup_orphaned_agent_branches\<close> loops over
  \<^verbatim>\<open>git branch | sed 's/^[* ]*//' | grep -E '^(claude|agent)/'\<close>:
  \<^verbatim>\<open>
  for branch in "${branches[@]}"; do
      local age
      age=$(get_branch_age "$branch")
      if [[ $age -gt 60 ]] && ! is_merged "$branch"; then
          found=true
          if [[ "$ARCHIVE_UNMERGED" == "true" ]]; then
              archive_branch "$branch"
          fi
          if [[ "$AUTO_MODE" == "true" ]] || confirm_deletion "$branch" "orphaned agent branch ($age days)"; then
              delete_branch "$branch" "orphaned agent branch ($age days)" "true"
          else
              ((SKIPPED_COUNT++))
          fi
      fi
      if [[ $age -gt 30 ]] && is_merged "$branch"; then
          found=true
          delete_branch "$branch" "merged agent branch older than 30 days" "false"
      fi
  done
  \<close>
  \<^verbatim>\<open>confirm_deletion\<close> itself returns 0 in auto mode, so the first test of the
  \<^verbatim>\<open>||\<close> changes nothing.
\<close>

definition orphaned_step :: "cleanup_git \<Rightarrow> cleanup_config \<Rightarrow> string \<Rightarrow> cleanup_state \<Rightarrow> res" where
  "orphaned_step g cfg branch st =
     (if get_branch_age g branch > 60 \<and> \<not> is_merged g branch
      then archive_confirm_delete g cfg branch st
      else Return 0 st)"

definition merged_agent_step :: "cleanup_git \<Rightarrow> cleanup_config \<Rightarrow> string \<Rightarrow> cleanup_state \<Rightarrow> res" where
  "merged_agent_step g cfg branch st =
     (if get_branch_age g branch > 30 \<and> is_merged g branch
      then plain (delete_branch g cfg branch False st)
      else Return 0 st)"

definition orphaned_body :: "cleanup_git \<Rightarrow> cleanup_config \<Rightarrow> string \<Rightarrow> cleanup_state \<Rightarrow> res" where
  "orphaned_body g cfg branch st =
     (case orphaned_step g cfg branch st of
        Exit status st1 \<Rightarrow> Exit status st1
      | Return _ st1 \<Rightarrow> merged_agent_step g cfg branch st1)"

definition agent_branch :: "string \<Rightarrow> bool" where
  "agent_branch branch = (starts_with ''claude/'' branch \<or> starts_with ''agent/'' branch)"

definition cleanup_orphaned_agent_branches :: "cleanup_git \<Rightarrow> cleanup_config \<Rightarrow> cleanup_state \<Rightarrow> res" where
  "cleanup_orphaned_agent_branches g cfg st =
     for_each (orphaned_body g cfg) (filter agent_branch (branches st)) st"

text \<open>
  \<^verbatim>\<open>
  main() {
      ...
      cleanup_merged_branches
      cleanup_stale_unmerged
      cleanup_orphaned_agent_branches
      print_summary
      log "========== Branch Cleanup Completed =========="
      if [[ $FAILED_COUNT -gt 0 ]]; then
          exit 1
      elif [[ $DELETED_COUNT -eq 0 ]] && [[ $ARCHIVED_COUNT -eq 0 ]]; then
          exit 2
      else
          exit 0
      fi
  }
  \<close>
  Each of the three functions ends with an \<^verbatim>\<open>if\<close> whose condition may be false,
  which returns 0. The result is the exit status and the final state.
\<close>

definition exit_code :: "cleanup_state \<Rightarrow> int" where
  "exit_code st =
     (if FAILED_COUNT st > 0 then 1
      else if DELETED_COUNT st = 0 \<and> ARCHIVED_COUNT st = 0 then 2
      else 0)"

definition cleanup_main :: "cleanup_git \<Rightarrow> cleanup_config \<Rightarrow> cleanup_state \<Rightarrow> int \<times> cleanup_state" where
  "cleanup_main g cfg st =
     (case cleanup_merged_branches g cfg st of
        Exit status st1 \<Rightarrow> (status, st1)
      | Return _ st1 \<Rightarrow>
     (case cleanup_stale_unmerged g cfg st1 of
        Exit status st2 \<Rightarrow> (status, st2)
      | Return _ st2 \<Rightarrow>
     (case cleanup_orphaned_agent_branches g cfg st2 of
        Exit status st3 \<Rightarrow> (status, st3)
      | Return _ st3 \<Rightarrow> (exit_code st3, st3))))"

text \<open>
  A run of the script in a repository with the branches \<open>bs\<close> and the tags \<open>ts\<close>,
  with \<open>input\<close> on the standard input.
\<close>

definition branch_cleanup ::
  "cleanup_git \<Rightarrow> cleanup_config \<Rightarrow> string list \<Rightarrow> string list \<Rightarrow> string \<Rightarrow> int \<times> cleanup_state" where
  "branch_cleanup g cfg bs ts input = cleanup_main g cfg (cleanup_start bs ts input)"

text \<open>
  To state properties of a run: \<open>holds I E r\<close> says that the state satisfies \<open>I\<close>
  when the command returned, and that status and state satisfy \<open>E\<close> when it ended
  the script.
\<close>

definition holds :: "(cleanup_state \<Rightarrow> bool) \<Rightarrow> (int \<Rightarrow> cleanup_state \<Rightarrow> bool) \<Rightarrow> res \<Rightarrow> bool" where
  "holds I E r = (case r of Return status st \<Rightarrow> I st | Exit status st \<Rightarrow> E status st)"

fun is_would_delete :: "action \<Rightarrow> bool" where
  "is_would_delete (WouldDelete b f) = True"
| "is_would_delete a = False"

fun is_skipped :: "action \<Rightarrow> bool" where
  "is_skipped (Skipped b) = True"
| "is_skipped a = False"

fun state_of :: "res \<Rightarrow> cleanup_state" where
  "state_of (Return status st) = st"
| "state_of (Exit status st) = st"

text \<open>No action so far is on a protected branch.\<close>

definition safe :: "cleanup_state \<Rightarrow> bool" where
  "safe st = (\<forall>a \<in> set (actions st). \<not> is_protected (target a))"

text \<open>
  In a dry run: \<^verbatim>\<open>DELETED_COUNT\<close> counts the reported deletions and nothing was
  archived or failed (\<open>counted\<close>); nothing at all was counted, reported for deletion
  or skipped, in a repository whose branches are among \<open>bs\<close> (\<open>quiet\<close>).
\<close>

definition counted :: "cleanup_state \<Rightarrow> bool" where
  "counted st =
     (DELETED_COUNT st = int (length (filter is_would_delete (actions st)))
      \<and> ARCHIVED_COUNT st = 0 \<and> FAILED_COUNT st = 0)"

definition counted_exit :: "int \<Rightarrow> cleanup_state \<Rightarrow> bool" where
  "counted_exit status st =
     (status \<noteq> 2 \<and> DELETED_COUNT st = int (length (filter is_would_delete (actions st))))"

definition quiet :: "string list \<Rightarrow> cleanup_state \<Rightarrow> bool" where
  "quiet bs st =
     (DELETED_COUNT st = 0 \<and> ARCHIVED_COUNT st = 0 \<and> SKIPPED_COUNT st = 0 \<and> FAILED_COUNT st = 0
      \<and> list_all (\<lambda>a. \<not> is_would_delete a \<and> \<not> is_skipped a) (actions st)
      \<and> set (branches st) \<subseteq> set bs)"

definition noisy :: "int \<Rightarrow> cleanup_state \<Rightarrow> bool" where
  "noisy status st = list_ex (\<lambda>a. is_would_delete a \<or> is_skipped a) (actions st)"

text \<open>
  A merged branch that \<^verbatim>\<open>cleanup_merged_branches\<close> acts on: it passes the filter of
  \<^verbatim>\<open>--branches\<close>, is not protected, and is older than \<^verbatim>\<open>--keep-merged\<close>.
\<close>

definition qualifies :: "cleanup_git \<Rightarrow> cleanup_config \<Rightarrow> string \<Rightarrow> bool" where
  "qualifies g cfg x =
     (BRANCH_PATTERN cfg x \<and> \<not> is_protected x \<and> is_merged g x
      \<and> get_branch_age g x > KEEP_MERGED_DAYS cfg)"

text \<open>No deletion of a merged branch so far is forced.\<close>

definition gentle :: "cleanup_git \<Rightarrow> cleanup_state \<Rightarrow> bool" where
  "gentle g st = (\<forall>a \<in> set (actions st). is_delete a \<and> is_merged g (target a) \<longrightarrow> \<not> forced a)"

text \<open>
  In a dry run: nothing was reported for deletion yet and \<^verbatim>\<open>DELETED_COUNT\<close> is 0
  (\<open>unreported\<close>); at most one deletion was reported (\<open>one_report\<close>).
\<close>

definition unreported :: "cleanup_state \<Rightarrow> bool" where
  "unreported st = (DELETED_COUNT st = 0 \<and> filter is_would_delete (actions st) = [])"

definition one_report :: "int \<Rightarrow> cleanup_state \<Rightarrow> bool" where
  "one_report status st = (length (filter is_would_delete (actions st)) \<le> 1)"




text \<open>
  Every report "would delete" on an unmerged branch in a list of actions comes after a
  report "would create tag" on the same branch.
\<close>

definition unmerged_report :: "cleanup_git \<Rightarrow> action \<Rightarrow> bool" where
  "unmerged_report g a = (is_would_delete a \<and> \<not> is_merged g (target a))"

definition archive_first :: "cleanup_git \<Rightarrow> action list \<Rightarrow> bool" where
  "archive_first g as =
     (\<forall>i < length as. unmerged_report g (as ! i) \<longrightarrow>
        (\<exists>j < i. is_would_archive (as ! j) \<and> target (as ! j) = target (as ! i)))"

definition ordered :: "cleanup_git \<Rightarrow> cleanup_state \<Rightarrow> bool" where
  "ordered g st = archive_first g (actions st)"

definition archived :: "cleanup_git \<Rightarrow> string \<Rightarrow> cleanup_state \<Rightarrow> bool" where
  "archived g b st =
     (ordered g st \<and> (\<exists>x \<in> set (actions st). is_would_archive x \<and> target x = b))"

section \<open>The logging wrappers\<close>


record db_error =
  error_message :: string
  error_details :: string
  error_hint :: string
  error_code :: string








section \<open>Example inputs\<close>

text \<open>
  A repository whose only branch is \<^verbatim>\<open>main\<close>, in step with the remote, where every
  git command succeeds.
\<close>

definition only_main :: prov_git where
  "only_main =
     \<lparr> in_work_tree = True, ref_exists = (\<lambda>r. r = ''main''), on_remote = (\<lambda>r. False),
       fetch_ok = (\<lambda>r. True), local_sha = (\<lambda>r. ''a1''), remote_sha = (\<lambda>r. ''a1''),
       current_branch = Some ''main'', pull_ok = (\<lambda>r. True), checkout_ok = (\<lambda>r. True),
       create_ok = (\<lambda>r. True) \<rparr>"

text \<open>
  For the audit: a repository whose only branch is \<^verbatim>\<open>main\<close>, one day old; one whose
  branches are \<^verbatim>\<open>main\<close> and the merged, 90 days old \<^verbatim>\<open>feature/done\<close>; one with
  the single, one day old branch \<^verbatim>\<open>hotfix/leaked_creds\<close>; and one with four
  branches that fill the four lists of the audit. Then the audit's default options.
\<close>

definition clean_repo :: audit_git where
  "clean_repo =
     \<lparr> has_git_dir = True, local_branches = [''main''], remote_branches = [],
       audit_branch_age = (\<lambda>b. 1), audit_is_merged = (\<lambda>b. True),
       get_branch_author = (\<lambda>b. Inr ''dev'') \<rparr>"

definition stale_only :: audit_git where
  "stale_only =
     \<lparr> has_git_dir = True, local_branches = [''feature/done'', ''main''], remote_branches = [],
       audit_branch_age = (\<lambda>b. if b = ''main'' then 1 else 90), audit_is_merged = (\<lambda>b. True),
       get_branch_author = (\<lambda>b. Inr ''dev'') \<rparr>"

definition leaked_creds :: audit_git where
  "leaked_creds =
     \<lparr> has_git_dir = True, local_branches = [''hotfix/leaked_creds''], remote_branches = [],
       audit_branch_age = (\<lambda>b. 1), audit_is_merged = (\<lambda>b. False),
       get_branch_author = (\<lambda>b. Inr ''dev'') \<rparr>"

definition four_kinds :: audit_git where
  "four_kinds =
     \<lparr> has_git_dir = True,
       local_branches = [''Old_Work'', ''claude/lost'', ''feature/done'', ''main''],
       remote_branches = [],
       audit_branch_age = (\<lambda>b. if b = ''main'' then 0 else 90),
       audit_is_merged = (\<lambda>b. b = ''feature/done'' \<or> b = ''main''),
       get_branch_author = (\<lambda>b. Inr ''dev'') \<rparr>"

definition audit_defaults :: audit_config where
  "audit_defaults = \<lparr> audit_STALE_DAYS = 30, OUTPUT_FORMAT = ''text'', CHECK_REMOTE = False \<rparr>"

text \<open>
  For the cleanup: every branch is merged and 10 days old, or unmerged and 90 days
  old, and every git command succeeds; the default options.
\<close>

definition old_merged :: cleanup_git where
  "old_merged =
     \<lparr> get_branch_age = (\<lambda>b. 10), is_merged = (\<lambda>b. True),
       rev_parse_ok = (\<lambda>b. True), tag_ok = (\<lambda>t. True),
       delete_ok = (\<lambda>b force. True), push_ok = (\<lambda>r. True) \<rparr>"

definition old_unmerged :: cleanup_git where
  "old_unmerged =
     \<lparr> get_branch_age = (\<lambda>b. 90), is_merged = (\<lambda>b. False),
       rev_parse_ok = (\<lambda>b. True), tag_ok = (\<lambda>t. True),
       delete_ok = (\<lambda>b force. True), push_ok = (\<lambda>r. True) \<rparr>"

definition defaults :: cleanup_config where
  "defaults =
     \<lparr> STALE_DAYS = 30, DRY_RUN = False, AUTO_MODE = False, KEEP_MERGED_DAYS = 7,
       ARCHIVE_UNMERGED = False, BRANCH_PATTERN = (\<lambda>b. True), CLEANUP_REMOTE = False \<rparr>"

text \<open>The options of \<^verbatim>\<open>--dry-run\<close> and of \<^verbatim>\<open>--auto --archive-unmerged\<close>.\<close>

definition dry_run :: cleanup_config where
  "dry_run = defaults\<lparr> DRY_RUN := True \<rparr>"


section \<open>Theorems\<close>

subsection \<open>The naming classifier\<close>

lemma first_match_iff:
  "(first_match ps b = 0) = (\<exists>p \<in> set ps. regex_match p b)"
  by (induction ps) auto

text \<open>
  C6. The classifier answers compliant (status 0) for a branch name exactly when the
  name matches at least one pattern of \<open>VALID_PATTERNS\<close>, and with any other name it
  answers 1. The three valid examples of the policy are compliant and the three
  invalid ones are not.
\<close>

theorem naming_classifier:
  "(check_naming_convention b = 0) = (\<exists>p \<in> set VALID_PATTERNS. regex_match p b)
   \<and> (check_naming_convention b = 1) = (\<not> (\<exists>p \<in> set VALID_PATTERNS. regex_match p b))
   \<and> check_naming_convention ''feature/add-user-auth'' = 0
   \<and> check_naming_convention ''claude/setup-ci-01K6xLndeu5hU8pH3L6aWxn8'' = 0
   \<and> check_naming_convention ''release/v1.2.0'' = 0
   \<and> check_naming_convention ''Feature/AddUserAuth'' = 1
   \<and> check_naming_convention ''fix_null_pointer'' = 1
   \<and> check_naming_convention ''claude/setup-ci'' = 1"
proof -
  have iff0: "(check_naming_convention b = 0) = (\<exists>p \<in> set VALID_PATTERNS. regex_match p b)"
    by (simp add: check_naming_convention_def first_match_iff)
  have two: "first_match ps x = 0 \<or> first_match ps x = 1" for ps x
    by (induction ps) auto
  have iff1: "(check_naming_convention b = 1) = (\<not> (\<exists>p \<in> set VALID_PATTERNS. regex_match p b))"
    using iff0 two [of VALID_PATTERNS b] by (auto simp: check_naming_convention_def)
  have e1: "check_naming_convention ''feature/add-user-auth'' = 0" by code_simp
  have e2: "check_naming_convention ''claude/setup-ci-01K6xLndeu5hU8pH3L6aWxn8'' = 0"
    by code_simp
  have e3: "check_naming_convention ''release/v1.2.0'' = 0" by code_simp
  have e4: "check_naming_convention ''Feature/AddUserAuth'' = 1" by code_simp
  have e5: "check_naming_convention ''fix_null_pointer'' = 1" by code_simp
  have e6: "check_naming_convention ''claude/setup-ci'' = 1" by code_simp
  from iff0 iff1 e1 e2 e3 e4 e5 e6 show ?thesis by blast
qed

theorem naming_classifier_witness:
  "check_naming_convention ''hotfix/leaked_creds'' = 1
   \<and> \<not> (\<exists>p \<in> set VALID_PATTERNS. regex_match p ''hotfix/leaked_creds'')"
proof -
  have "check_naming_convention ''hotfix/leaked_creds'' = 1" by code_simp
  with naming_classifier [of "''hotfix/leaked_creds''"] show ?thesis by blast
qed

subsection \<open>The provisioner\<close>

lemma class_alnum: "atom_ok upper_lower_digit c = alphanumeric c"
proof (cases c)
  case (Char b0 b1 b2 b3 b4 b5 b6 b7)
  show ?thesis unfolding Char
    by (cases b0; cases b1; cases b2; cases b3; cases b4; cases b5; cases b6; cases b7)
       (simp_all add: upper_lower_digit_def alphanumeric_def)
qed

lemma bound_alone:
  "regex_match [Bound a lo hi] s =
     (lo \<le> length s \<and> length s \<le> hi \<and> (\<forall>c \<in> set s. atom_ok a c))"
  by (auto simp: list_ex_iff run_ok_def list_all_iff)

lemma session_id_accepts:
  "(validate_session_id s = Inr ()) =
     (24 \<le> length s \<and> length s \<le> 32 \<and> (\<forall>c \<in> set s. alphanumeric c))"
  unfolding validate_session_id_def SESSION_ID_PATTERN_def bound_alone class_alnum
  by simp

lemma session_id_rejects: "validate_session_id s \<noteq> Inr () \<Longrightarrow> validate_session_id s = Inl 1"
  by (simp add: validate_session_id_def split: if_splits)

text \<open>
  C7. The session identifier is accepted exactly when it is made of 24 to 32
  alphanumeric characters (so 23 and 33 characters are rejected, 24 and 32 accepted).
  When it is rejected, \<open>main\<close> ends with status 1 and has run no git command that
  writes; so does the whole script, whose only earlier exit is the help requested
  with \<^verbatim>\<open>--help\<close> or \<^verbatim>\<open>-h\<close> as first argument.
\<close>

theorem session_id_validation:
  "(validate_session_id s = Inr ()) =
     (24 \<le> length s \<and> length s \<le> 32 \<and> (\<forall>c \<in> set s. alphanumeric c))
   \<and> (validate_session_id s \<noteq> Inr () \<longrightarrow>
        provision_main g (task # s # rest) = (1, []))
   \<and> (validate_session_id s \<noteq> Inr () \<and> task \<noteq> ''--help'' \<and> task \<noteq> ''-h'' \<longrightarrow>
        prepare_agent_branch g (task # s # rest) = (1, []))"
proof -
  have main_rej: "provision_main g (task # s # rest) = (1, [])"
    if "validate_session_id s \<noteq> Inr ()"
    using session_id_rejects [OF that] by (simp add: provision_main_def Let_def)
  have script_rej: "prepare_agent_branch g (task # s # rest) = (1, [])"
    if "validate_session_id s \<noteq> Inr ()" "task \<noteq> ''--help''" "task \<noteq> ''-h''"
    using that main_rej by (auto simp: prepare_agent_branch_def arg_or_def)
  from session_id_accepts main_rej script_rej show ?thesis by blast
qed

theorem session_id_validation_witness:
  "validate_session_id ''01K6xLndeu5hU8pH3L6aWxn'' \<noteq> Inr ()
   \<and> validate_session_id ''01K6xLndeu5hU8pH3L6aWxn8'' = Inr ()
   \<and> validate_session_id ''01K6xLndeu5hU8pH3L6aWxn801K6xLnd'' = Inr ()
   \<and> validate_session_id ''01K6xLndeu5hU8pH3L6aWxn801K6xLnde'' \<noteq> Inr ()
   \<and> prepare_agent_branch only_main [''setup-ci'', ''01K6xLndeu5hU8pH3L6aWxn''] = (1, [])"
proof -
  have a: "validate_session_id ''01K6xLndeu5hU8pH3L6aWxn'' \<noteq> Inr ()"
    using session_id_validation [of "''01K6xLndeu5hU8pH3L6aWxn''" only_main "''setup-ci''" "[]"]
    by simp
  have b: "validate_session_id ''01K6xLndeu5hU8pH3L6aWxn8'' = Inr ()"
    using session_id_validation [of "''01K6xLndeu5hU8pH3L6aWxn8''" only_main "''setup-ci''" "[]"]
    by (simp add: alphanumeric_def)
  have c: "validate_session_id ''01K6xLndeu5hU8pH3L6aWxn801K6xLnd'' = Inr ()"
    using session_id_validation [of "''01K6xLndeu5hU8pH3L6aWxn801K6xLnd''" only_main "''setup-ci''" "[]"]
    by (simp add: alphanumeric_def)
  have d: "validate_session_id ''01K6xLndeu5hU8pH3L6aWxn801K6xLnde'' \<noteq> Inr ()"
    using session_id_validation [of "''01K6xLndeu5hU8pH3L6aWxn801K6xLnde''" only_main "''setup-ci''" "[]"]
    by simp
  have e: "prepare_agent_branch only_main [''setup-ci'', ''01K6xLndeu5hU8pH3L6aWxn''] = (1, [])"
    using a session_id_validation [of "''01K6xLndeu5hU8pH3L6aWxn''" only_main "''setup-ci''" "[]"]
    by simp
  from a b c d e show ?thesis by blast
qed





subsection \<open>The audit\<close>

lemma note_exit:
  "EXIT_CODE (note_orphaned b age m (note_stale cfg b age m (note_naming b st))) =
     (if check_naming_convention b \<noteq> 0 then 1
      else if EXIT_CODE st \<noteq> 0 then EXIT_CODE st
      else if age > audit_STALE_DAYS cfg then 2 else 0)"
  by (simp add: note_orphaned_def note_stale_def note_naming_def Let_def)

lemma note_violations:
  "naming_violations (note_orphaned b age m (note_stale cfg b age m (note_naming b st))) =
     naming_violations st @ filter (\<lambda>x. check_naming_convention x \<noteq> 0) [b]"
  by (simp add: note_orphaned_def note_stale_def note_naming_def Let_def)

lemma collect_loop_step:
  assumes "collect_loop g cfg (b # bs) st = Inr st'"
  shows "\<exists>st1. collect_loop g cfg bs st1 = Inr st'
           \<and> EXIT_CODE st1 = EXIT_CODE (note_orphaned b (audit_branch_age g b) (audit_is_merged g b)
                (note_stale cfg b (audit_branch_age g b) (audit_is_merged g b) (note_naming b st)))
           \<and> naming_violations st1 = naming_violations (note_orphaned b (audit_branch_age g b)
                (audit_is_merged g b)
                (note_stale cfg b (audit_branch_age g b) (audit_is_merged g b) (note_naming b st)))"
proof (cases "get_branch_author g b")
  case (Inl status)
  with assms show ?thesis by (simp add: Let_def)
next
  case (Inr author)
  let ?st3 = "note_orphaned b (audit_branch_age g b) (audit_is_merged g b)
                (note_stale cfg b (audit_branch_age g b) (audit_is_merged g b) (note_naming b st))"
  let ?st4 = "?st3\<lparr> branch_data :=
                 (branch_data ?st3)(b \<mapsto> (audit_branch_age g b, audit_is_merged g b, author)) \<rparr>"
  from assms Inr have "collect_loop g cfg bs ?st4 = Inr st'"
    by (simp add: Let_def)
  moreover have "EXIT_CODE ?st4 = EXIT_CODE ?st3" by simp
  moreover have "naming_violations ?st4 = naming_violations ?st3" by simp
  ultimately show ?thesis by blast
qed

lemma collect_exit:
  "collect_loop g cfg bs st = Inr st' \<Longrightarrow>
     EXIT_CODE st' =
       (if \<exists>b \<in> set bs. check_naming_convention b \<noteq> 0 then 1
        else if EXIT_CODE st \<noteq> 0 then EXIT_CODE st
        else if \<exists>b \<in> set bs. audit_branch_age g b > audit_STALE_DAYS cfg then 2 else 0)"
proof (induction bs arbitrary: st)
  case Nil
  then show ?case by simp
next
  case (Cons b bs)
  from collect_loop_step [OF Cons.prems] obtain st1 where
    rest: "collect_loop g cfg bs st1 = Inr st'" and
    code: "EXIT_CODE st1 = EXIT_CODE (note_orphaned b (audit_branch_age g b) (audit_is_merged g b)
                (note_stale cfg b (audit_branch_age g b) (audit_is_merged g b) (note_naming b st)))"
    by blast
  from Cons.IH [OF rest] code show ?case
    unfolding note_exit by (auto split: if_splits)
qed

lemma collect_violations:
  "collect_loop g cfg bs st = Inr st' \<Longrightarrow>
     naming_violations st' =
       naming_violations st @ filter (\<lambda>x. check_naming_convention x \<noteq> 0) bs"
proof (induction bs arbitrary: st)
  case Nil
  then show ?case by simp
next
  case (Cons b bs)
  from collect_loop_step [OF Cons.prems] obtain st1 where
    rest: "collect_loop g cfg bs st1 = Inr st'" and
    viol: "naming_violations st1 = naming_violations (note_orphaned b (audit_branch_age g b)
                (audit_is_merged g b)
                (note_stale cfg b (audit_branch_age g b) (audit_is_merged g b) (note_naming b st)))"
    by blast
  from Cons.IH [OF rest] viol show ?case
    by (simp add: note_violations)
qed

lemma audit_exited:
  assumes "branch_audit g cfg = Exited c"
  shows "c = 1"
proof -
  from assms obtain st where st: "collect_branch_data g cfg = Inr st"
    and report: "generate_report cfg st = None" and c: "c = EXIT_CODE st"
    by (auto simp: branch_audit_def split: if_splits sum.splits option.splits)
  from st have loop: "collect_loop g cfg (all_branches g cfg) audit_start = Inr st"
    by (simp add: collect_branch_data_def)
  from report have "naming_violations st \<noteq> []"
    by (auto simp: generate_report_def split: if_splits)
  with collect_violations [OF loop]
  have "filter (\<lambda>b. check_naming_convention b \<noteq> 0) (all_branches g cfg) \<noteq> []"
    by (simp add: audit_start_def)
  then have "\<exists>b \<in> set (all_branches g cfg). check_naming_convention b \<noteq> 0"
    by (simp add: filter_empty_conv)
  with collect_exit [OF loop] c show ?thesis by simp
qed

text \<open>
  The value that \<^verbatim>\<open>collect_branch_data\<close> leaves in \<^verbatim>\<open>EXIT_CODE\<close> is the one the
  header of the script promises: 1 if some listed branch violates the naming
  convention, otherwise 2 if some listed branch is older than the threshold,
  otherwise 0, whatever the order of the listing.
\<close>

lemma collected_exit_code:
  assumes "collect_branch_data g cfg = Inr st"
  shows "EXIT_CODE st =
           (if \<exists>b \<in> set (all_branches g cfg). check_naming_convention b \<noteq> 0 then 1
            else if \<exists>b \<in> set (all_branches g cfg).
                      audit_branch_age g b > audit_STALE_DAYS cfg then 2
            else 0)"
  using collect_exit [of g cfg "all_branches g cfg" audit_start st] assms
  by (simp add: collect_branch_data_def audit_start_def)

text \<open>
  C2 does not hold of the script as bash runs it. In the repository whose only branch
  is \<^verbatim>\<open>main\<close>, one day old, the audit finds no naming violation and no stale branch
  and leaves 0 in \<^verbatim>\<open>EXIT_CODE\<close>, but the script ends in the report, on
  \<^verbatim>\<open>${#naming_violations[@]}\<close>, with exit status 1 and not 0. Where the only finding is
  the stale branch \<^verbatim>\<open>feature/done\<close>, \<^verbatim>\<open>EXIT_CODE\<close> is 2 and the exit status is
  again 1. No audit, whatever the repository and the options, ends with
  \<^verbatim>\<open>exit $EXIT_CODE\<close> and the code 0 or the code 2: the report lets the script pass
  only when each of the four lists has an entry, and then the code is 1.
\<close>

theorem audit_exit_code_lost:
  "findings clean_repo audit_defaults = Some (0, [], [])
   \<and> branch_audit clean_repo audit_defaults = Aborted 1
   \<and> exit_status (branch_audit clean_repo audit_defaults) = 1
   \<and> findings stale_only audit_defaults = Some (2, [], [(''feature/done'', 90)])
   \<and> branch_audit stale_only audit_defaults = Aborted 1
   \<and> exit_status (branch_audit stale_only audit_defaults) = 1
   \<and> branch_audit g cfg \<noteq> Exited 0
   \<and> branch_audit g cfg \<noteq> Exited 2"
proof -
  have clean: "findings clean_repo audit_defaults = Some (0, [], [])" by code_simp
  have clean_run: "branch_audit clean_repo audit_defaults = Aborted 1" by code_simp
  have stale: "findings stale_only audit_defaults = Some (2, [], [(''feature/done'', 90)])"
    by code_simp
  have stale_run: "branch_audit stale_only audit_defaults = Aborted 1" by code_simp
  have no0: "branch_audit g cfg \<noteq> Exited 0" using audit_exited [of g cfg 0] by auto
  have no2: "branch_audit g cfg \<noteq> Exited 2" using audit_exited [of g cfg 2] by auto
  from clean clean_run stale stale_run no0 no2 show ?thesis by simp
qed

text \<open>
  The audit of the single branch \<^verbatim>\<open>hotfix/leaked_creds\<close> ends in the report as well;
  its status 1 is the one that the naming violation asks for. An audit that finds a
  branch of each of the four kinds reaches \<^verbatim>\<open>exit $EXIT_CODE\<close>, with the code 1.
\<close>

lemma audit_examples:
  "branch_audit leaked_creds audit_defaults = Aborted 1"
  "branch_audit four_kinds audit_defaults = Exited 1"
  by code_simp+

subsection \<open>The cleanup: properties kept by every step\<close>

lemmas cleanup_defs = merged_body_def stale_body_def orphaned_body_def orphaned_step_def
  merged_agent_step_def archive_confirm_delete_def archive_if_requested_def
  confirm_and_delete_def confirm_deletion_def delete_branch_def archive_branch_def
  plain_def incr_DELETED_def incr_ARCHIVED_def incr_SKIPPED_def incr_FAILED_def act_def Let_def

lemma holds_bind:
  assumes "holds I E r" and "\<And>s. I s \<Longrightarrow> holds J E (f s)"
  shows "holds J E (case r of Exit c s \<Rightarrow> Exit c s | Return x s \<Rightarrow> f s)"
  using assms by (cases r) (simp_all add: holds_def)

lemma for_each_holds:
  assumes step: "\<And>b s. b \<in> set bs \<Longrightarrow> I s \<Longrightarrow> holds I E (body b s)"
      and start: "I st"
  shows "holds I E (for_each body bs st)"
  using assms
proof (induction bs arbitrary: st)
  case Nil
  then show ?case by (simp add: holds_def)
next
  case (Cons b bs)
  have h: "holds I E (body b st)" using Cons.prems by simp
  show ?case
  proof (cases "body b st")
    case (Return c s)
    with h have "I s" by (simp add: holds_def)
    with Cons.IH [of s] Cons.prems(1) Return show ?thesis by simp
  next
    case (Exit c s)
    with h show ?thesis by (simp add: holds_def)
  qed
qed

text \<open>
  A property that every loop body keeps, for the branches of a set \<open>B\<close> that holds
  the branches of the repository, holds at the end of the script: either the three
  functions returned and the exit code is the one computed from the counters, or one
  of them ended the script.
\<close>

lemma cleanup_main_holds:
  assumes sub: "\<And>s. I s \<Longrightarrow> set (branches s) \<subseteq> B"
      and b1: "\<And>b s. b \<in> B \<Longrightarrow> I s \<Longrightarrow> holds I E (merged_body g cfg b s)"
      and b2: "\<And>b s. b \<in> B \<Longrightarrow> I s \<Longrightarrow> holds I E (stale_body g cfg b s)"
      and b3: "\<And>b s. b \<in> B \<Longrightarrow> agent_branch b \<Longrightarrow> I s \<Longrightarrow> holds I E (orphaned_body g cfg b s)"
      and start: "I st"
  shows "case cleanup_main g cfg st of (c, s) \<Rightarrow> (I s \<and> c = exit_code s) \<or> E c s"
proof -
  have p1: "holds I E (cleanup_merged_branches g cfg s)" if i: "I s" for s
    unfolding cleanup_merged_branches_def
  proof (rule for_each_holds)
    fix b s' assume "b \<in> set (filter (BRANCH_PATTERN cfg) (branches s))" and i': "I s'"
    with sub [OF i] have "b \<in> B" by auto
    then show "holds I E (merged_body g cfg b s')" using i' by (rule b1)
  qed (rule i)
  have p2: "holds I E (cleanup_stale_unmerged g cfg s)" if i: "I s" for s
    unfolding cleanup_stale_unmerged_def
  proof (rule for_each_holds)
    fix b s' assume "b \<in> set (filter (BRANCH_PATTERN cfg) (branches s))" and i': "I s'"
    with sub [OF i] have "b \<in> B" by auto
    then show "holds I E (stale_body g cfg b s')" using i' by (rule b2)
  qed (rule i)
  have p3: "holds I E (cleanup_orphaned_agent_branches g cfg s)" if i: "I s" for s
    unfolding cleanup_orphaned_agent_branches_def
  proof (rule for_each_holds)
    fix b s' assume m: "b \<in> set (filter agent_branch (branches s))" and i': "I s'"
    with sub [OF i] have "b \<in> B" by auto
    moreover from m have "agent_branch b" by simp
    ultimately show "holds I E (orphaned_body g cfg b s')" using i' by (rule b3)
  qed (rule i)
  show ?thesis
  proof (cases "cleanup_merged_branches g cfg st")
    case (Exit c1 s1)
    with p1 [OF start] show ?thesis by (simp add: cleanup_main_def holds_def)
  next
    case r1: (Return c1 s1)
    with p1 [OF start] have i1: "I s1" by (simp add: holds_def)
    show ?thesis
    proof (cases "cleanup_stale_unmerged g cfg s1")
      case (Exit c2 s2)
      with p2 [OF i1] r1 show ?thesis by (simp add: cleanup_main_def holds_def)
    next
      case r2: (Return c2 s2)
      with p2 [OF i1] have i2: "I s2" by (simp add: holds_def)
      show ?thesis
      proof (cases "cleanup_orphaned_agent_branches g cfg s2")
        case (Exit c3 s3)
        with p3 [OF i2] r1 r2 show ?thesis by (simp add: cleanup_main_def holds_def)
      next
        case (Return c3 s3)
        with p3 [OF i2] r1 r2 show ?thesis by (simp add: cleanup_main_def holds_def)
      qed
    qed
  qed
qed

subsection \<open>Protected branches\<close>

lemma merged_body_safe: "safe s \<Longrightarrow> holds safe (\<lambda>c. safe) (merged_body g cfg b s)"
  by (auto simp: cleanup_defs holds_def safe_def)

lemma stale_body_safe: "safe s \<Longrightarrow> holds safe (\<lambda>c. safe) (stale_body g cfg b s)"
  by (auto simp: cleanup_defs holds_def safe_def split: list.splits)

lemma agent_not_protected: "agent_branch b \<Longrightarrow> \<not> is_protected b"
  by (auto simp: agent_branch_def is_protected_def PROTECTED_BRANCHES_def starts_with_def)

lemma orphaned_body_safe:
  "agent_branch b \<Longrightarrow> safe s \<Longrightarrow> holds safe (\<lambda>c. safe) (orphaned_body g cfg b s)"
  using agent_not_protected [of b]
  by (auto simp: cleanup_defs holds_def safe_def split: list.splits)

lemma cleanup_main_safe: "safe st \<Longrightarrow> safe (snd (cleanup_main g cfg st))"
  using cleanup_main_holds [of safe UNIV "\<lambda>c. safe" g cfg st]
    merged_body_safe stale_body_safe orphaned_body_safe
  by (auto split: prod.splits)

text \<open>
  C1. Whatever the options, the answers of git and of the user, and the branches and
  tags of the repository, no action of a cleanup run (archive, deletion, push, skip;
  done, failed or only reported) is on \<^verbatim>\<open>main\<close>, \<^verbatim>\<open>develop\<close> or \<^verbatim>\<open>master\<close>.
\<close>

theorem protected_untouched:
  assumes "b \<in> {''main'', ''develop'', ''master''}"
  shows "\<forall>a \<in> set (actions (snd (branch_cleanup g cfg bs ts input))). target a \<noteq> b"
proof -
  have "safe (cleanup_start bs ts input)"
    by (simp add: safe_def cleanup_start_def)
  then have "safe (snd (branch_cleanup g cfg bs ts input))"
    unfolding branch_cleanup_def by (rule cleanup_main_safe)
  moreover from assms have "is_protected b"
    by (auto simp: is_protected_def PROTECTED_BRANCHES_def)
  ultimately show ?thesis by (auto simp: safe_def)
qed

text \<open>
  A run without \<^verbatim>\<open>--dry-run\<close> in a repository where \<^verbatim>\<open>main\<close>, \<^verbatim>\<open>develop\<close> and
  \<^verbatim>\<open>feature/old\<close> are all merged and 10 days old: only \<^verbatim>\<open>feature/old\<close> is deleted.
\<close>

theorem protected_untouched_witness:
  "''main'' \<in> {''main'', ''develop'', ''master''}
   \<and> actions (snd (branch_cleanup old_merged defaults [''main'', ''develop'', ''feature/old''] [] []))
       = [Deleted ''feature/old'' False]
   \<and> list_all (\<lambda>a. target a \<noteq> ''main'')
        (actions (snd (branch_cleanup old_merged defaults
                         [''main'', ''develop'', ''feature/old''] [] [])))"
proof -
  have m: "''main'' \<in> {''main'', ''develop'', ''master''}" by simp
  have run: "actions (snd (branch_cleanup old_merged defaults [''main'', ''develop'', ''feature/old''] [] []))
       = [Deleted ''feature/old'' False]"
    by code_simp
  have "list_all (\<lambda>a. target a \<noteq> ''main'')
        (actions (snd (branch_cleanup old_merged defaults
                         [''main'', ''develop'', ''feature/old''] [] [])))"
    using protected_untouched [OF m, of old_merged defaults
        "[''main'', ''develop'', ''feature/old'']" "[]" "[]"]
    by (simp only: list_all_iff)
  with m run show ?thesis by blast
qed

subsection \<open>The exit code of a dry run\<close>

lemma merged_body_counted:
  "DRY_RUN cfg \<Longrightarrow> counted s \<Longrightarrow> holds counted counted_exit (merged_body g cfg b s)"
  by (auto simp: cleanup_defs holds_def counted_def counted_exit_def)

lemma stale_body_counted:
  "DRY_RUN cfg \<Longrightarrow> counted s \<Longrightarrow> holds counted counted_exit (stale_body g cfg b s)"
  by (auto simp: cleanup_defs holds_def counted_def counted_exit_def split: list.splits)

lemma orphaned_body_counted:
  "DRY_RUN cfg \<Longrightarrow> counted s \<Longrightarrow> holds counted counted_exit (orphaned_body g cfg b s)"
  by (auto simp: cleanup_defs holds_def counted_def counted_exit_def split: list.splits)

lemma merged_body_quiet:
  "DRY_RUN cfg \<Longrightarrow> quiet bs s \<Longrightarrow> holds (quiet bs) noisy (merged_body g cfg b s)"
  by (auto simp: cleanup_defs holds_def quiet_def noisy_def)

lemma stale_body_quiet:
  "DRY_RUN cfg \<Longrightarrow> rev_parse_ok g b \<Longrightarrow> quiet bs s \<Longrightarrow>
     holds (quiet bs) noisy (stale_body g cfg b s)"
  by (auto simp: cleanup_defs holds_def quiet_def noisy_def split: list.splits)

lemma orphaned_body_quiet:
  "DRY_RUN cfg \<Longrightarrow> rev_parse_ok g b \<Longrightarrow> quiet bs s \<Longrightarrow>
     holds (quiet bs) noisy (orphaned_body g cfg b s)"
  by (auto simp: cleanup_defs holds_def quiet_def noisy_def split: list.splits)

lemma dry_run_counted:
  assumes "DRY_RUN cfg"
  shows "case branch_cleanup g cfg bs ts input of
           (c, s) \<Rightarrow> (counted s \<and> c = exit_code s) \<or> counted_exit c s"
  unfolding branch_cleanup_def
proof (rule cleanup_main_holds [where B = UNIV])
  show "counted (cleanup_start bs ts input)" by (simp add: counted_def cleanup_start_def)
qed (simp_all add: merged_body_counted stale_body_counted orphaned_body_counted assms)

lemma dry_run_quiet:
  assumes "DRY_RUN cfg" and "\<forall>b \<in> set bs. rev_parse_ok g b"
  shows "case branch_cleanup g cfg bs ts input of
           (c, s) \<Rightarrow> (quiet bs s \<and> c = exit_code s) \<or> noisy c s"
  unfolding branch_cleanup_def
proof (rule cleanup_main_holds [where B = "set bs"])
  show "quiet bs (cleanup_start bs ts input)" by (simp add: quiet_def cleanup_start_def)
  show "set (branches s) \<subseteq> set bs" if "quiet bs s" for s
    using that by (simp add: quiet_def)
qed (simp_all add: merged_body_quiet stale_body_quiet orphaned_body_quiet assms)

text \<open>
  C3, as stated, fails: a dry run in a repository whose only branch
  \<^verbatim>\<open>feature/old\<close> is merged and 10 days old reports one "would delete", which
  \<^verbatim>\<open>delete_branch\<close> counts in \<^verbatim>\<open>DELETED_COUNT\<close>, and does not end with exit code 2.
\<close>

theorem dry_run_exit_counterexample:
  "DRY_RUN (defaults\<lparr> DRY_RUN := True \<rparr>)
   \<and> actions (snd (branch_cleanup old_merged (defaults\<lparr> DRY_RUN := True \<rparr>) [''feature/old''] [] []))
       = [WouldDelete ''feature/old'' False]
   \<and> DELETED_COUNT (snd (branch_cleanup old_merged (defaults\<lparr> DRY_RUN := True \<rparr>)
                           [''feature/old''] [] [])) = 1
   \<and> fst (branch_cleanup old_merged (defaults\<lparr> DRY_RUN := True \<rparr>) [''feature/old''] [] []) \<noteq> 2"
  by code_simp

text \<open>
  C3, amended. In a dry run \<^verbatim>\<open>DELETED_COUNT\<close> is the number of "would delete"
  reports. The exit code is 2 only if no "would delete" was reported, and it is 2
  whenever no "would delete" was reported, no branch was skipped and git resolves
  every listed branch name.
\<close>

theorem dry_run_exit:
  assumes "DRY_RUN cfg"
  shows "DELETED_COUNT (snd (branch_cleanup g cfg bs ts input))
           = int (length (filter is_would_delete (actions (snd (branch_cleanup g cfg bs ts input)))))
     \<and> (fst (branch_cleanup g cfg bs ts input) = 2 \<longrightarrow>
          (\<forall>a \<in> set (actions (snd (branch_cleanup g cfg bs ts input))). \<not> is_would_delete a))
     \<and> ((\<forall>b \<in> set bs. rev_parse_ok g b)
          \<and> (\<forall>a \<in> set (actions (snd (branch_cleanup g cfg bs ts input))).
                \<not> is_would_delete a \<and> \<not> is_skipped a)
          \<longrightarrow> fst (branch_cleanup g cfg bs ts input) = 2)"
proof (cases "branch_cleanup g cfg bs ts input")
  case (Pair c s)
  from dry_run_counted [OF assms, of g bs ts input] Pair
  have cnt: "(counted s \<and> c = exit_code s) \<or> counted_exit c s" by simp
  then have 1: "DELETED_COUNT s = int (length (filter is_would_delete (actions s)))"
    by (auto simp: counted_def counted_exit_def)
  have 2: "\<forall>a \<in> set (actions s). \<not> is_would_delete a" if "c = 2"
  proof -
    from cnt that have "counted s" and "exit_code s = 2" by (auto simp: counted_exit_def)
    then have "DELETED_COUNT s = 0"
      by (auto simp: counted_def exit_code_def split: if_splits)
    with 1 show ?thesis by (simp add: filter_empty_conv)
  qed
  have 3: "c = 2"
    if r: "\<forall>b \<in> set bs. rev_parse_ok g b"
      and n: "\<forall>a \<in> set (actions s). \<not> is_would_delete a \<and> \<not> is_skipped a"
  proof -
    from dry_run_quiet [OF assms r, of ts input] Pair
    have "(quiet bs s \<and> c = exit_code s) \<or> noisy c s" by simp
    moreover from n have "\<not> noisy c s" by (auto simp: noisy_def list_ex_iff)
    ultimately have "quiet bs s" and "c = exit_code s" by blast+
    then show ?thesis by (simp add: quiet_def exit_code_def)
  qed
  from 1 2 3 Pair show ?thesis by simp
qed

text \<open>A dry run in a repository with the single branch \<^verbatim>\<open>main\<close> ends with exit code 2.\<close>

theorem dry_run_exit_witness:
  "DRY_RUN (defaults\<lparr> DRY_RUN := True \<rparr>)
   \<and> list_all (rev_parse_ok old_merged) [''main'']
   \<and> actions (snd (branch_cleanup old_merged (defaults\<lparr> DRY_RUN := True \<rparr>) [''main''] [] [])) = []
   \<and> fst (branch_cleanup old_merged (defaults\<lparr> DRY_RUN := True \<rparr>) [''main''] [] []) = 2"
proof -
  have d: "DRY_RUN (defaults\<lparr> DRY_RUN := True \<rparr>)" by simp
  have r: "list_all (rev_parse_ok old_merged) [''main'']" by (simp add: old_merged_def)
  have a: "actions (snd (branch_cleanup old_merged (defaults\<lparr> DRY_RUN := True \<rparr>) [''main''] [] [])) = []"
    by code_simp
  from dry_run_exit [OF d, of old_merged "[''main'']" "[]" "[]"] a r
  have "fst (branch_cleanup old_merged (defaults\<lparr> DRY_RUN := True \<rparr>) [''main''] [] []) = 2"
    by simp
  with d r a show ?thesis by blast
qed

subsection \<open>Merged branches in a dry run\<close>

text \<open>
  In a dry run the merged pass ends the script at the first branch it reports: the
  \<^verbatim>\<open>((DELETED_COUNT++))\<close> that follows the report finds 0 and returns status 1.
\<close>

lemma merged_first:
  assumes "DRY_RUN cfg" and "DELETED_COUNT st = 0"
  shows "filter (qualifies g cfg) bs = b # others \<Longrightarrow>
     for_each (merged_body g cfg) (filter (BRANCH_PATTERN cfg) bs) st
       = Exit 1 ((act (WouldDelete b False) st)\<lparr> DELETED_COUNT := 1 \<rparr>)"
proof (induction bs)
  case Nil
  then show ?case by simp
next
  case (Cons x bs)
  show ?case
  proof (cases "qualifies g cfg x")
    case True
    with Cons.prems have "x = b" by simp
    with True assms show ?thesis
      by (simp add: qualifies_def merged_body_def delete_branch_def plain_def
            incr_DELETED_def act_def)
  next
    case False
    with Cons.prems Cons.IH have
      ih: "for_each (merged_body g cfg) (filter (BRANCH_PATTERN cfg) bs) st
             = Exit 1 ((act (WouldDelete b False) st)\<lparr> DELETED_COUNT := 1 \<rparr>)"
      by simp
    from False have "\<not> BRANCH_PATTERN cfg x \<or> merged_body g cfg x st = Return 0 st"
      by (auto simp: merged_body_def qualifies_def)
    with ih show ?thesis by auto
  qed
qed

lemma merged_body_unreported:
  "DRY_RUN cfg \<Longrightarrow> unreported s \<Longrightarrow> holds unreported one_report (merged_body g cfg b s)"
  by (auto simp: cleanup_defs holds_def unreported_def one_report_def)

lemma stale_body_unreported:
  "DRY_RUN cfg \<Longrightarrow> unreported s \<Longrightarrow> holds unreported one_report (stale_body g cfg b s)"
  by (auto simp: cleanup_defs holds_def unreported_def one_report_def split: list.splits)

lemma orphaned_body_unreported:
  "DRY_RUN cfg \<Longrightarrow> unreported s \<Longrightarrow> holds unreported one_report (orphaned_body g cfg b s)"
  by (auto simp: cleanup_defs holds_def unreported_def one_report_def split: list.splits)

lemma dry_run_one_report:
  assumes "DRY_RUN cfg"
  shows "length (filter is_would_delete (actions (snd (branch_cleanup g cfg bs ts input)))) \<le> 1"
proof -
  have "case branch_cleanup g cfg bs ts input of
          (c, s) \<Rightarrow> (unreported s \<and> c = exit_code s) \<or> one_report c s"
    unfolding branch_cleanup_def
  proof (rule cleanup_main_holds [where B = UNIV])
    show "unreported (cleanup_start bs ts input)"
      by (simp add: unreported_def cleanup_start_def)
  qed (simp_all add: merged_body_unreported stale_body_unreported orphaned_body_unreported assms)
  then show ?thesis
    by (auto simp: unreported_def one_report_def split: prod.splits)
qed

lemma merged_body_gentle:
  "gentle g s \<Longrightarrow> holds (gentle g) (\<lambda>c. gentle g) (merged_body g cfg b s)"
  by (auto simp: cleanup_defs holds_def gentle_def)

lemma stale_body_gentle:
  "gentle g s \<Longrightarrow> holds (gentle g) (\<lambda>c. gentle g) (stale_body g cfg b s)"
  by (auto simp: cleanup_defs holds_def gentle_def split: list.splits)

lemma orphaned_body_gentle:
  "gentle g s \<Longrightarrow> holds (gentle g) (\<lambda>c. gentle g) (orphaned_body g cfg b s)"
  by (auto simp: cleanup_defs holds_def gentle_def split: list.splits)

lemma cleanup_main_gentle: "gentle g st \<Longrightarrow> gentle g (snd (cleanup_main g cfg st))"
  using cleanup_main_holds [of "gentle g" UNIV "\<lambda>c. gentle g" g cfg st]
    merged_body_gentle stale_body_gentle orphaned_body_gentle
  by (auto split: prod.splits)

text \<open>
  What does hold of the reports on merged branches: in every run, no deletion done,
  failed or reported on a merged branch is forced; and in a dry run the first branch
  of the listing that is merged, older than \<^verbatim>\<open>--keep-merged\<close>, not protected and
  let through by \<^verbatim>\<open>--branches\<close> is reported once, after which the script ends.
\<close>

lemma merged_deletes_unforced:
  "\<forall>a \<in> set (actions (snd (branch_cleanup g cfg bs ts input))).
      is_delete a \<and> is_merged g (target a) \<longrightarrow> \<not> forced a"
proof -
  have "gentle g (cleanup_start bs ts input)"
    by (simp add: gentle_def cleanup_start_def)
  then have "gentle g (snd (branch_cleanup g cfg bs ts input))"
    unfolding branch_cleanup_def by (rule cleanup_main_gentle)
  then show ?thesis by (simp add: gentle_def)
qed

lemma first_merged_reported:
  assumes d: "DRY_RUN cfg" and f: "filter (qualifies g cfg) bs = b # others"
  shows "branch_cleanup g cfg bs ts input
           = (1, (act (WouldDelete b False) (cleanup_start bs ts input))\<lparr> DELETED_COUNT := 1 \<rparr>)"
proof -
  have z: "DELETED_COUNT (cleanup_start bs ts input) = 0" by (simp add: cleanup_start_def)
  have "cleanup_merged_branches g cfg (cleanup_start bs ts input)
          = Exit 1 ((act (WouldDelete b False) (cleanup_start bs ts input))\<lparr> DELETED_COUNT := 1 \<rparr>)"
    using merged_first [OF d z f]
    by (simp add: cleanup_merged_branches_def cleanup_start_def)
  then show ?thesis
    by (simp add: branch_cleanup_def cleanup_main_def)
qed

text \<open>
  The merged pass lists only the names that \<^verbatim>\<open>--branches\<close> lets through: with
  \<^verbatim>\<open>--branches '^feature/'\<close> a dry run reports nothing for the merged, 10 days old
  branch \<^verbatim>\<open>fix/old\<close>.
\<close>

lemma branches_filter_excludes:
  "actions (snd (branch_cleanup old_merged
                   (defaults\<lparr> DRY_RUN := True, BRANCH_PATTERN := starts_with ''feature/'' \<rparr>)
                   [''fix/old''] [] [])) = []"
  by code_simp

text \<open>
  C4 does not hold of the script as bash runs it. With the default options and
  \<^verbatim>\<open>--dry-run\<close>, in a repository with the branches \<^verbatim>\<open>feature/a\<close>, \<^verbatim>\<open>feature/b\<close>
  and \<^verbatim>\<open>main\<close>, all merged and 10 days old (\<^verbatim>\<open>--keep-merged\<close> is 7), the run
  reports "would delete" for \<^verbatim>\<open>feature/a\<close> and ends there with status 1:
  \<^verbatim>\<open>feature/b\<close>, which is not protected and which the default pattern lets through,
  gets no report. No dry run, whatever the repository and the options, reports more
  than one deletion.
\<close>

theorem merged_dry_run_stops:
  "is_merged old_merged ''feature/b''
   \<and> get_branch_age old_merged ''feature/b'' > KEEP_MERGED_DAYS dry_run
   \<and> \<not> is_protected ''feature/b''
   \<and> BRANCH_PATTERN dry_run ''feature/b''
   \<and> DRY_RUN dry_run
   \<and> actions (snd (branch_cleanup old_merged dry_run [''feature/a'', ''feature/b'', ''main''] [] []))
        = [WouldDelete ''feature/a'' False]
   \<and> fst (branch_cleanup old_merged dry_run [''feature/a'', ''feature/b'', ''main''] [] []) = 1
   \<and> length (filter is_would_delete
        (actions (snd (branch_cleanup g (cfg\<lparr> DRY_RUN := True \<rparr>) bs ts input)))) \<le> 1"
proof -
  have b: "is_merged old_merged ''feature/b''
      \<and> get_branch_age old_merged ''feature/b'' > KEEP_MERGED_DAYS dry_run
      \<and> \<not> is_protected ''feature/b''
      \<and> BRANCH_PATTERN dry_run ''feature/b''
      \<and> DRY_RUN dry_run"
    by code_simp
  have run: "actions (snd (branch_cleanup old_merged dry_run [''feature/a'', ''feature/b'', ''main''] [] []))
        = [WouldDelete ''feature/a'' False]"
    by code_simp
  have status: "fst (branch_cleanup old_merged dry_run [''feature/a'', ''feature/b'', ''main''] [] []) = 1"
    by code_simp
  have "DRY_RUN (cfg\<lparr> DRY_RUN := True \<rparr>)" by simp
  then have "length (filter is_would_delete
        (actions (snd (branch_cleanup g (cfg\<lparr> DRY_RUN := True \<rparr>) bs ts input)))) \<le> 1"
    by (rule dry_run_one_report)
  with b run status show ?thesis by simp
qed

subsection \<open>Archive before delete\<close>

text \<open>The order of the reports of a dry run.\<close>

lemma archive_first_snoc:
  "archive_first g (as @ [a]) =
     (archive_first g as \<and>
      (unmerged_report g a \<longrightarrow> (\<exists>x \<in> set as. is_would_archive x \<and> target x = target a)))"
proof (rule iffI)
  assume h: "archive_first g (as @ [a])"
  have 1: "archive_first g as"
    unfolding archive_first_def
  proof (intro allI impI)
    fix i assume i: "i < length as" and d: "unmerged_report g (as ! i)"
    have "i < length (as @ [a])" using i by simp
    moreover have "unmerged_report g ((as @ [a]) ! i)" using i d by (simp add: nth_append)
    ultimately obtain j where j: "j < i" "is_would_archive ((as @ [a]) ! j)"
        "target ((as @ [a]) ! j) = target ((as @ [a]) ! i)"
      using h unfolding archive_first_def by blast
    from j i have "is_would_archive (as ! j)" "target (as ! j) = target (as ! i)"
      by (simp_all add: nth_append)
    with j(1) show "\<exists>j<i. is_would_archive (as ! j) \<and> target (as ! j) = target (as ! i)"
      by blast
  qed
  have 2: "\<exists>x \<in> set as. is_would_archive x \<and> target x = target a" if d: "unmerged_report g a"
  proof -
    have "length as < length (as @ [a])" by simp
    moreover have "unmerged_report g ((as @ [a]) ! length as)" using d by simp
    ultimately obtain j where j: "j < length as" "is_would_archive ((as @ [a]) ! j)"
        "target ((as @ [a]) ! j) = target ((as @ [a]) ! length as)"
      using h unfolding archive_first_def by blast
    then have "is_would_archive (as ! j)" "target (as ! j) = target a"
      by (simp_all add: nth_append)
    with j(1) show ?thesis using nth_mem by blast
  qed
  from 1 2 show "archive_first g as \<and>
      (unmerged_report g a \<longrightarrow> (\<exists>x \<in> set as. is_would_archive x \<and> target x = target a))" by blast
next
  assume h: "archive_first g as \<and>
      (unmerged_report g a \<longrightarrow> (\<exists>x \<in> set as. is_would_archive x \<and> target x = target a))"
  show "archive_first g (as @ [a])"
    unfolding archive_first_def
  proof (intro allI impI)
    fix i assume i: "i < length (as @ [a])" and d: "unmerged_report g ((as @ [a]) ! i)"
    show "\<exists>j<i. is_would_archive ((as @ [a]) ! j)
                \<and> target ((as @ [a]) ! j) = target ((as @ [a]) ! i)"
    proof (cases "i < length as")
      case True
      with d have "unmerged_report g (as ! i)" by (simp add: nth_append)
      with h True obtain j where j: "j < i" "is_would_archive (as ! j)"
          "target (as ! j) = target (as ! i)"
        unfolding archive_first_def by blast
      with True have "is_would_archive ((as @ [a]) ! j)"
          "target ((as @ [a]) ! j) = target ((as @ [a]) ! i)"
        by (simp_all add: nth_append)
      with j(1) show ?thesis by blast
    next
      case False
      with i have il: "i = length as" by simp
      with d have "unmerged_report g a" by simp
      with h obtain x where x: "x \<in> set as" "is_would_archive x" "target x = target a" by blast
      then obtain j where j: "j < length as" "as ! j = x" by (auto simp: in_set_conv_nth)
      with x il have "is_would_archive ((as @ [a]) ! j)"
          "target ((as @ [a]) ! j) = target ((as @ [a]) ! i)"
        by (simp_all add: nth_append)
      with j(1) il show ?thesis by blast
    qed
  qed
qed

lemma archive_first_snoc2:
  "archive_first g (as @ [a, b]) =
     (archive_first g as \<and>
      (unmerged_report g a \<longrightarrow> (\<exists>x \<in> set as. is_would_archive x \<and> target x = target a)) \<and>
      (unmerged_report g b \<longrightarrow>
         (\<exists>x \<in> set as. is_would_archive x \<and> target x = target b)
         \<or> (is_would_archive a \<and> target a = target b)))"
proof -
  have "archive_first g (as @ [a, b]) = archive_first g ((as @ [a]) @ [b])" by simp
  also have "\<dots> = (archive_first g (as @ [a]) \<and>
      (unmerged_report g b \<longrightarrow> (\<exists>x \<in> set (as @ [a]). is_would_archive x \<and> target x = target b)))"
    by (rule archive_first_snoc)
  finally show ?thesis by (auto simp: archive_first_snoc)
qed

lemma archive_ordered:
  "DRY_RUN cfg \<Longrightarrow> ordered g st \<Longrightarrow>
     holds (archived g b) (\<lambda>c. ordered g) (plain (archive_branch g cfg b st))"
  by (simp add: archive_branch_def plain_def act_def Let_def holds_def
        ordered_def archived_def archive_first_snoc unmerged_report_def)

lemma delete_ordered:
  "ordered g st \<Longrightarrow>
   is_merged g b \<or> (\<exists>x \<in> set (actions st). is_would_archive x \<and> target x = b) \<Longrightarrow>
     holds (ordered g) (\<lambda>c. ordered g) (plain (delete_branch g cfg b f st))"
  by (auto simp: delete_branch_def plain_def incr_DELETED_def incr_FAILED_def act_def holds_def
        ordered_def archive_first_snoc archive_first_snoc2 unmerged_report_def)

lemma skip_ordered:
  "ordered g st \<Longrightarrow> holds (ordered g) (\<lambda>c. ordered g) (plain (incr_SKIPPED (act (Skipped b) st)))"
  by (simp add: plain_def incr_SKIPPED_def act_def holds_def
        ordered_def archive_first_snoc unmerged_report_def)

lemma confirm_actions: "actions (snd (confirm_deletion cfg st)) = actions st"
  by (simp add: confirm_deletion_def split: list.splits)

lemma confirm_and_delete_ordered:
  assumes "ordered g st"
      and "is_merged g b \<or> (\<exists>x \<in> set (actions st). is_would_archive x \<and> target x = b)"
  shows "holds (ordered g) (\<lambda>c. ordered g) (confirm_and_delete g cfg b st)"
proof (cases "confirm_deletion cfg st")
  case (Pair status st1)
  with confirm_actions [of cfg st] have a: "actions st1 = actions st" by simp
  with assms have o: "ordered g st1"
    and x: "is_merged g b \<or> (\<exists>x \<in> set (actions st1). is_would_archive x \<and> target x = b)"
    by (simp_all add: ordered_def)
  show ?thesis
    using Pair delete_ordered [OF o x] skip_ordered [OF o]
    by (simp add: confirm_and_delete_def)
qed

lemma archive_confirm_delete_ordered:
  assumes "DRY_RUN cfg" and "ARCHIVE_UNMERGED cfg" and "ordered g st"
  shows "holds (ordered g) (\<lambda>c. ordered g) (archive_confirm_delete g cfg b st)"
  unfolding archive_confirm_delete_def
proof (rule holds_bind)
  show "holds (archived g b) (\<lambda>c. ordered g) (archive_if_requested g cfg b st)"
    using assms archive_ordered by (simp add: archive_if_requested_def)
  show "holds (ordered g) (\<lambda>c. ordered g) (confirm_and_delete g cfg b s)" if "archived g b s" for s
    using that confirm_and_delete_ordered [of g s b cfg] by (simp add: archived_def)
qed

lemma merged_body_ordered:
  "ordered g s \<Longrightarrow> holds (ordered g) (\<lambda>c. ordered g) (merged_body g cfg b s)"
  using delete_ordered [of g s b cfg False]
  by (simp add: merged_body_def holds_def)

lemma stale_body_ordered:
  "DRY_RUN cfg \<Longrightarrow> ARCHIVE_UNMERGED cfg \<Longrightarrow> ordered g s \<Longrightarrow>
     holds (ordered g) (\<lambda>c. ordered g) (stale_body g cfg b s)"
  using archive_confirm_delete_ordered [of cfg g s b]
  by (simp add: stale_body_def holds_def)

lemma orphaned_body_ordered:
  assumes "DRY_RUN cfg" and "ARCHIVE_UNMERGED cfg" and "ordered g s"
  shows "holds (ordered g) (\<lambda>c. ordered g) (orphaned_body g cfg b s)"
  unfolding orphaned_body_def
proof (rule holds_bind)
  show "holds (ordered g) (\<lambda>c. ordered g) (orphaned_step g cfg b s)"
    using assms archive_confirm_delete_ordered [of cfg g s b]
    by (simp add: orphaned_step_def holds_def)
  show "holds (ordered g) (\<lambda>c. ordered g) (merged_agent_step g cfg b s')" if "ordered g s'" for s'
    using that delete_ordered [of g s' b cfg False] by (simp add: merged_agent_step_def holds_def)
qed

lemma cleanup_main_ordered:
  "DRY_RUN cfg \<Longrightarrow> ARCHIVE_UNMERGED cfg \<Longrightarrow> ordered g st \<Longrightarrow>
     ordered g (snd (cleanup_main g cfg st))"
  using cleanup_main_holds [of "ordered g" UNIV "\<lambda>c. ordered g" g cfg st]
    merged_body_ordered stale_body_ordered orphaned_body_ordered
  by (auto split: prod.splits)

text \<open>
  In a dry run with \<^verbatim>\<open>--archive-unmerged\<close>, every report "would delete" on an
  unmerged branch has a report "would create tag" on the same branch at an earlier
  place of the sequence of actions.
\<close>

lemma dry_run_archive_order:
  assumes "DRY_RUN cfg" and "ARCHIVE_UNMERGED cfg"
      and "as = actions (snd (branch_cleanup g cfg bs ts input))"
      and "i < length as"
      and "is_would_delete (as ! i)"
      and "\<not> is_merged g (target (as ! i))"
  shows "\<exists>j < i. is_would_archive (as ! j) \<and> target (as ! j) = target (as ! i)"
proof -
  have "ordered g (cleanup_start bs ts input)"
    by (simp add: ordered_def archive_first_def cleanup_start_def)
  with assms(1,2) have "ordered g (snd (branch_cleanup g cfg bs ts input))"
    unfolding branch_cleanup_def by (rule cleanup_main_ordered)
  with assms(3) have "archive_first g as" by (simp add: ordered_def)
  moreover from assms(5,6) have "unmerged_report g (as ! i)" by (simp add: unmerged_report_def)
  ultimately show ?thesis
    using assms(4) unfolding archive_first_def by blast
qed

lemma dry_run_archive_example:
  "actions (snd (branch_cleanup old_unmerged (defaults\<lparr> DRY_RUN := True, ARCHIVE_UNMERGED := True \<rparr>)
                  [''develop'', ''feature/wip''] [] ''y''))
     = [WouldArchive ''feature/wip'' ''archive/feature-wip'', WouldDelete ''feature/wip'' True]"
  by code_simp






subsection \<open>Archive tags\<close>

lemma archive_again_fails:
  "\<not> DRY_RUN cfg \<Longrightarrow> rev_parse_ok g b \<Longrightarrow>
   archive_tag b \<in> set (tags st) \<or> \<not> tag_ok g (archive_tag b) \<Longrightarrow>
     archive_branch g cfg b st = Return 1 (act (ArchiveFailed b (archive_tag b)) st)"
  by (auto simp: archive_branch_def)

lemma archive_leaves_tag:
  "\<not> DRY_RUN cfg \<Longrightarrow> rev_parse_ok g b \<Longrightarrow> tag_ok g (archive_tag b) \<Longrightarrow>
     archive_tag b \<in> set (tags (state_of (archive_branch g cfg b st)))"
  by (simp add: archive_branch_def plain_def incr_ARCHIVED_def act_def Let_def)

text \<open>
  C10. The tag of a branch is \<^verbatim>\<open>archive/\<close> followed by the branch name with every
  \<^verbatim>\<open>/\<close> replaced by \<^verbatim>\<open>-\<close>. The distinct branches \<^verbatim>\<open>agent/x/y-z\<close> and
  \<^verbatim>\<open>agent/x-y/z\<close> get the same tag \<^verbatim>\<open>archive/agent-x-y-z\<close>, so the mapping is
  not injective. Outside a dry run, \<^verbatim>\<open>archive_branch\<close> on an existing branch whose
  tag exists creates nothing, warns and returns 1; this is what it does on
  \<^verbatim>\<open>agent/x-y/z\<close> in the state left by archiving \<^verbatim>\<open>agent/x/y-z\<close>.
\<close>

theorem archive_tag_collision:
  "archive_tag b = ''archive/'' @ map (\<lambda>c. if c = CHR ''/'' then CHR ''-'' else c) b
   \<and> ''agent/x/y-z'' \<noteq> ''agent/x-y/z''
   \<and> archive_tag ''agent/x/y-z'' = ''archive/agent-x-y-z''
   \<and> archive_tag ''agent/x-y/z'' = ''archive/agent-x-y-z''
   \<and> \<not> inj archive_tag
   \<and> (\<not> DRY_RUN cfg \<and> rev_parse_ok g b \<and> archive_tag b \<in> set (tags st) \<longrightarrow>
        archive_branch g cfg b st = Return 1 (act (ArchiveFailed b (archive_tag b)) st))
   \<and> (\<not> DRY_RUN cfg \<and> rev_parse_ok g ''agent/x/y-z'' \<and> rev_parse_ok g ''agent/x-y/z'' \<longrightarrow>
        archive_branch g cfg ''agent/x-y/z'' (state_of (archive_branch g cfg ''agent/x/y-z'' st))
          = Return 1 (act (ArchiveFailed ''agent/x-y/z'' ''archive/agent-x-y-z'')
                          (state_of (archive_branch g cfg ''agent/x/y-z'' st))))"
proof -
  have t1: "archive_tag ''agent/x/y-z'' = ''archive/agent-x-y-z''"
    by (simp add: archive_tag_def replace_char_def)
  have t2: "archive_tag ''agent/x-y/z'' = ''archive/agent-x-y-z''"
    by (simp add: archive_tag_def replace_char_def)
  have ne: "''agent/x/y-z'' \<noteq> ''agent/x-y/z''" by simp
  have ni: "\<not> inj archive_tag"
  proof
    assume i: "inj archive_tag"
    have "''agent/x/y-z'' = ''agent/x-y/z''"
      by (rule injD [OF i]) (simp only: t1 t2)
    with ne show False by blast
  qed
  have second: "archive_branch g cfg ''agent/x-y/z'' (state_of (archive_branch g cfg ''agent/x/y-z'' st))
          = Return 1 (act (ArchiveFailed ''agent/x-y/z'' ''archive/agent-x-y-z'')
                          (state_of (archive_branch g cfg ''agent/x/y-z'' st)))"
    if d: "\<not> DRY_RUN cfg" and r1: "rev_parse_ok g ''agent/x/y-z''"
      and r2: "rev_parse_ok g ''agent/x-y/z''"
  proof -
    have "archive_tag ''agent/x-y/z''
            \<in> set (tags (state_of (archive_branch g cfg ''agent/x/y-z'' st)))
          \<or> \<not> tag_ok g (archive_tag ''agent/x-y/z'')"
      using archive_leaves_tag [OF d r1, of st] t1 t2 by auto
    from archive_again_fails [OF d r2 this] t2 show ?thesis by simp
  qed
  have name: "archive_tag b = ''archive/'' @ map (\<lambda>c. if c = CHR ''/'' then CHR ''-'' else c) b"
    by (simp add: archive_tag_def replace_char_def)
  have again: "\<not> DRY_RUN cfg \<and> rev_parse_ok g b \<and> archive_tag b \<in> set (tags st) \<longrightarrow>
        archive_branch g cfg b st = Return 1 (act (ArchiveFailed b (archive_tag b)) st)"
    using archive_again_fails by blast
  have after: "\<not> DRY_RUN cfg \<and> rev_parse_ok g ''agent/x/y-z'' \<and> rev_parse_ok g ''agent/x-y/z'' \<longrightarrow>
        archive_branch g cfg ''agent/x-y/z'' (state_of (archive_branch g cfg ''agent/x/y-z'' st))
          = Return 1 (act (ArchiveFailed ''agent/x-y/z'' ''archive/agent-x-y-z'')
                          (state_of (archive_branch g cfg ''agent/x/y-z'' st)))"
    using second by blast
  show ?thesis
    by (intro conjI) (rule name, rule ne, rule t1, rule t2, rule ni, rule again, rule after)
qed

text \<open>
  With the default options, in a repository without tags: archiving
  \<^verbatim>\<open>agent/x/y-z\<close> creates the tag, and archiving \<^verbatim>\<open>agent/x-y/z\<close> after it fails.
\<close>

theorem archive_tag_collision_witness:
  "\<not> DRY_RUN defaults
   \<and> rev_parse_ok old_unmerged ''agent/x/y-z'' \<and> rev_parse_ok old_unmerged ''agent/x-y/z''
   \<and> tags (state_of (archive_branch old_unmerged defaults ''agent/x/y-z''
                       (cleanup_start [''agent/x/y-z'', ''agent/x-y/z''] [] [])))
       = [''archive/agent-x-y-z'']
   \<and> archive_branch old_unmerged defaults ''agent/x-y/z''
        (state_of (archive_branch old_unmerged defaults ''agent/x/y-z''
                     (cleanup_start [''agent/x/y-z'', ''agent/x-y/z''] [] [])))
       = Return 1 (act (ArchiveFailed ''agent/x-y/z'' ''archive/agent-x-y-z'')
                    (state_of (archive_branch old_unmerged defaults ''agent/x/y-z''
                                 (cleanup_start [''agent/x/y-z'', ''agent/x-y/z''] [] []))))"
proof -
  have d: "\<not> DRY_RUN defaults" by (simp add: defaults_def)
  have r: "rev_parse_ok old_unmerged ''agent/x/y-z''" "rev_parse_ok old_unmerged ''agent/x-y/z''"
    by (simp_all add: old_unmerged_def)
  have t: "tags (state_of (archive_branch old_unmerged defaults ''agent/x/y-z''
                       (cleanup_start [''agent/x/y-z'', ''agent/x-y/z''] [] [])))
       = [''archive/agent-x-y-z'']"
    by code_simp
  from d r t archive_tag_collision [of "''agent/x/y-z''" defaults old_unmerged
      "cleanup_start [''agent/x/y-z'', ''agent/x-y/z''] [] []"]
  show ?thesis by blast
qed

subsection \<open>The logging wrappers\<close>


end
